theory Spec2Isabelle
  imports Main
begin

section \<open>JavaScript values\<close>

text \<open>
  The values that flow through \<^verbatim>\<open>config.ts\<close> before the schema has typed them: what
  \<^verbatim>\<open>JSON.parse\<close> or a configuration module's default export yields, and what a caller
  passes inline. An object is the list of its entries in insertion order; as in an object
  literal, a later entry for the same key replaces an earlier one. A string is a list of
  characters, each standing for one code unit below 256. No field of the schema accepts a
  number, so the payload of \<open>JNum\<close> never influences a result.
\<close>

datatype json =
    JUndefined
  | JNull
  | JBool bool
  | JNum int
  | JStr string
  | JArr "json list"
  | JObj "(string \<times> json) list"

type_synonym obj = "(string \<times> json) list"

text \<open>Reading a property: \<^verbatim>\<open>o[k]\<close> is \<^verbatim>\<open>undefined\<close> when \<open>o\<close> has no entry for \<open>k\<close>.\<close>

definition obj_get :: "obj \<Rightarrow> string \<Rightarrow> json" where
  "obj_get ob k = (case map_of (rev ob) k of None \<Rightarrow> JUndefined | Some v \<Rightarrow> v)"

text \<open>\<^verbatim>\<open>k in o\<close> for an own property.\<close>

definition has_key :: "obj \<Rightarrow> string \<Rightarrow> bool" where
  "has_key ob k = (k \<in> fst ` set ob)"

text \<open>Decimal digits of an array index, as the property key JavaScript gives it.\<close>

function index_key :: "nat \<Rightarrow> string" where
  "index_key n =
     (if n < 10 then [char_of (48 + n)]
      else index_key (n div 10) @ [char_of (48 + n mod 10)])"
  by pat_completeness auto
termination
  by (relation "measure id") auto

text \<open>
  The own enumerable properties that \<^verbatim>\<open>{...v}\<close> copies: the entries of an object, the
  indexed elements of an array, the indexed characters of a string, and nothing for
  \<^verbatim>\<open>undefined\<close>, \<^verbatim>\<open>null\<close>, a boolean or a number.
\<close>

fun own_entries :: "json \<Rightarrow> obj" where
  "own_entries (JObj kvs) = kvs"
| "own_entries (JArr xs) = zip (map index_key [0..<length xs]) xs"
| "own_entries (JStr s) = zip (map index_key [0..<length s]) (map (\<lambda>c. JStr [c]) s)"
| "own_entries _ = []"

text \<open>The object literal \<^verbatim>\<open>{ ...a, ...b }\<close>, for \<open>b\<close> already an object.\<close>

definition spread :: "json \<Rightarrow> obj \<Rightarrow> obj" where
  "spread a b = own_entries a @ b"


section \<open>Paths (\<^verbatim>\<open>node:path\<close>, POSIX flavour)\<close>

definition isAbsolute :: "string \<Rightarrow> bool" where
  "isAbsolute p = (case p of [] \<Rightarrow> False | c # _ \<Rightarrow> c = CHR ''/'')"

text \<open>The segments between the slashes of a path, empty ones included.\<close>

fun split_slash :: "string \<Rightarrow> string list" where
  "split_slash [] = [[]]"
| "split_slash (c # cs) =
     (if c = CHR ''/'' then [] # split_slash cs
      else (case split_slash cs of
              [] \<Rightarrow> [[c]]
            | s # ss \<Rightarrow> (c # s) # ss))"

fun join_slash :: "string list \<Rightarrow> string" where
  "join_slash [] = []"
| "join_slash [s] = s"
| "join_slash (s # t # ss) = s @ CHR ''/'' # join_slash (t # ss)"

text \<open>
  One segment of \<^verbatim>\<open>normalizeString\<close>, on the stack of segments kept so far (innermost
  first): an empty segment and \<^verbatim>\<open>.\<close> are dropped, \<^verbatim>\<open>..\<close> removes the segment before
  it, and where there is none to remove it is kept only when the path may climb above its
  start (\<open>allowAboveRoot\<close>).
\<close>

definition normalize_step :: "bool \<Rightarrow> string \<Rightarrow> string list \<Rightarrow> string list" where
  "normalize_step allowAboveRoot seg st =
     (if seg = [] \<or> seg = ''.'' then st
      else if seg = ''..'' then
        (case st of
           [] \<Rightarrow> (if allowAboveRoot then [''..''] else [])
         | seg' # rest \<Rightarrow>
             (if seg' = ''..'' then (if allowAboveRoot then ''..'' # st else st)
              else rest))
      else seg # st)"

definition normalizeString :: "string \<Rightarrow> bool \<Rightarrow> string" where
  "normalizeString p allowAboveRoot =
     join_slash (rev (fold (normalize_step allowAboveRoot) (split_slash p) []))"

text \<open>
  The loop of \<^verbatim>\<open>path.resolve\<close>: the arguments from the last to the first and then the
  working directory, each non-empty one put in front of what has been collected, until
  one of them is absolute.
\<close>

fun resolve_loop :: "string list \<Rightarrow> string \<Rightarrow> string \<times> bool" where
  "resolve_loop [] resolvedPath = (resolvedPath, False)"
| "resolve_loop (p # ps) resolvedPath =
     (if p = [] then resolve_loop ps resolvedPath
      else if isAbsolute p then (p @ CHR ''/'' # resolvedPath, True)
      else resolve_loop ps (p @ CHR ''/'' # resolvedPath))"

definition path_resolve :: "string \<Rightarrow> string list \<Rightarrow> string" where
  "path_resolve cwd args =
     (case resolve_loop (rev args @ [cwd]) [] of
        (resolvedPath, resolvedAbsolute) \<Rightarrow>
          (let n = normalizeString resolvedPath (\<not> resolvedAbsolute)
           in if resolvedAbsolute then CHR ''/'' # n
              else if n \<noteq> [] then n else ''.''))"

text \<open>
  \<^verbatim>\<open>path.extname\<close>: the last component of the path, trailing slashes set aside, from its
  last dot on; empty when the component has no dot, when its last dot is its first
  character, or when it is \<^verbatim>\<open>..\<close>.
\<close>

definition last_component :: "string \<Rightarrow> string" where
  "last_component p =
     rev (takeWhile (\<lambda>c. c \<noteq> CHR ''/'') (dropWhile (\<lambda>c. c = CHR ''/'') (rev p)))"

definition extname :: "string \<Rightarrow> string" where
  "extname p =
     (let b = last_component p;
          after = rev (takeWhile (\<lambda>c. c \<noteq> CHR ''.'') (rev b))
      in if CHR ''.'' \<notin> set b then []
         else if length after + 1 = length b then []
         else if b = ''..'' then []
         else CHR ''.'' # after)"


section \<open>The schema (\<^verbatim>\<open>configSchema\<close>)\<close>

text \<open>
  The combinators of the schema library, each a parser from a JavaScript value to a typed
  result, \<open>None\<close> when the value does not have the declared shape.
\<close>

fun z_string :: "json \<Rightarrow> string option" where
  "z_string (JStr s) = Some s"
| "z_string _ = None"

fun z_boolean :: "json \<Rightarrow> bool option" where
  "z_boolean (JBool b) = Some b"
| "z_boolean _ = None"

definition z_enum :: "string list \<Rightarrow> json \<Rightarrow> string option" where
  "z_enum vs j = (case z_string j of None \<Rightarrow> None | Some s \<Rightarrow> if s \<in> set vs then Some s else None)"

fun z_array :: "(json \<Rightarrow> 'a option) \<Rightarrow> json \<Rightarrow> 'a list option" where
  "z_array inner (JArr xs) = those (map inner xs)"
| "z_array inner _ = None"

text \<open>\<^verbatim>\<open>.optional()\<close>: \<^verbatim>\<open>undefined\<close> is accepted as it is.\<close>

definition z_optional :: "(json \<Rightarrow> 'a option) \<Rightarrow> json \<Rightarrow> 'a option option" where
  "z_optional inner j = (if j = JUndefined then Some None else map_option Some (inner j))"

text \<open>
  \<^verbatim>\<open>.default(d)\<close> on an optional schema: \<^verbatim>\<open>undefined\<close> is replaced by \<open>d\<close> before the inner
  schema parses it, and the result is typed as never \<^verbatim>\<open>undefined\<close>. Every default of
  \<^verbatim>\<open>configSchema\<close> is a defined value, so the inner schema never yields \<^verbatim>\<open>undefined\<close> here.
\<close>

definition z_default :: "json \<Rightarrow> (json \<Rightarrow> 'a option option) \<Rightarrow> json \<Rightarrow> 'a option" where
  "z_default d inner j =
     (case inner (if j = JUndefined then d else j) of
        None \<Rightarrow> None
      | Some None \<Rightarrow> None
      | Some (Some x) \<Rightarrow> Some x)"

text \<open>\<^verbatim>\<open>a.or(b)\<close>: the first of the two schemas that accepts the value.\<close>

definition z_or :: "(json \<Rightarrow> 'a option) \<Rightarrow> (json \<Rightarrow> 'a option) \<Rightarrow> json \<Rightarrow> 'a option" where
  "z_or a b j = (case a j of Some x \<Rightarrow> Some x | None \<Rightarrow> b j)"

text \<open>The entries of a value that \<^verbatim>\<open>z.object\<close> accepts: an object, not an array, not \<^verbatim>\<open>null\<close>.\<close>

fun z_object_entries :: "json \<Rightarrow> obj option" where
  "z_object_entries (JObj kvs) = Some kvs"
| "z_object_entries _ = None"

definition newline :: char where
  "newline = CHR 0x0A"

definition dquote :: char where
  "dquote = CHR 0x22"

definition squote :: char where
  "squote = CHR 0x27"

definition defaultTemplate_routeTemplate :: string where
  "defaultTemplate_routeTemplate =
     ''%%tsrImports%%'' @
     [newline, newline] @
     ''%%tsrExportStart%%{'' @ [newline] @ '' component: RouteComponent'' @ [newline] @
       '' }%%tsrExportEnd%%'' @ [newline, newline] @
     ''function RouteComponent() { return <div>Hello '' @ [dquote] @ ''%%tsrPath%%'' @ [dquote] @
       ''!</div> };'' @ [newline]"

definition defaultTemplate_apiTemplate :: string where
  "defaultTemplate_apiTemplate =
     ''import { json } from '' @ [dquote] @ ''@tanstack/start'' @ [dquote] @ '';'' @ [newline] @
     ''%%tsrImports%%'' @
     [newline, newline] @
     ''%%tsrExportStart%%{ GET: ({ request, params }) => { return json({ message:'' @ [squote] @
       ''Hello '' @ [dquote] @ ''%%tsrPath%%'' @ [dquote] @ ''!'' @ [squote] @
       '' }) }}%%tsrExportEnd%%'' @ [newline]"

definition defaultTemplate :: json where
  "defaultTemplate =
     JObj [(''routeTemplate'', JStr defaultTemplate_routeTemplate),
           (''apiTemplate'', JStr defaultTemplate_apiTemplate)]"

record CustomScaffolding =
  routeTemplate :: string
  apiTemplate :: string

record Experimental =
  enableCodeSplitting :: "bool option"

text \<open>
  \<^verbatim>\<open>Config\<close>, the type inferred from the schema. An optional field without a default is an
  \<open>option\<close>, \<open>None\<close> for \<^verbatim>\<open>undefined\<close>. \<open>virtualRouteConfig\<close> keeps the value its schema
  produced (a virtual root route structure, or a string as \<open>JStr\<close>).
\<close>

record Config =
  virtualRouteConfig :: "json option"
  routeFilePrefix :: "string option"
  routeFileIgnorePrefix :: string
  routeFileIgnorePattern :: "string option"
  routesDirectory :: string
  generatedRouteTree :: string
  quoteStyle :: string
  semicolons :: bool
  disableTypes :: bool
  addExtensions :: bool
  disableLogging :: bool
  disableManifestGeneration :: bool
  apiBase :: string
  routeTreeFileHeader :: "string list"
  routeTreeFileFooter :: "string list"
  autoCodeSplitting :: "bool option"
  indexToken :: string
  routeToken :: string
  pathParamsAllowedCharacters :: "string list option"
  customScaffolding :: CustomScaffolding
  experimental :: "Experimental option"

text \<open>The two nested object schemas. Keys that the shape does not name are dropped.\<close>

definition customScaffolding_schema :: "json \<Rightarrow> CustomScaffolding option" where
  "customScaffolding_schema j =
     (case z_object_entries j of
        None \<Rightarrow> None
      | Some ob \<Rightarrow>
          (case (z_default (JStr defaultTemplate_routeTemplate) (z_optional z_string)
                   (obj_get ob ''routeTemplate''),
                 z_default (JStr defaultTemplate_apiTemplate) (z_optional z_string)
                   (obj_get ob ''apiTemplate'')) of
             (Some r, Some a) \<Rightarrow> Some \<lparr>routeTemplate = r, apiTemplate = a\<rparr>
           | _ \<Rightarrow> None))"

definition experimental_schema :: "json \<Rightarrow> Experimental option" where
  "experimental_schema j =
     (case z_object_entries j of
        None \<Rightarrow> None
      | Some ob \<Rightarrow>
          (case z_optional z_boolean (obj_get ob ''enableCodeSplitting'') of
             None \<Rightarrow> None
           | Some e \<Rightarrow> Some \<lparr>enableCodeSplitting = e\<rparr>))"

text \<open>What \<^verbatim>\<open>getConfig\<close> can fail with.\<close>

datatype error =
    LoadFailure string
  | SchemaViolation "string list"
  | DeprecatedFlag
  | TokenCollision
  | ReservedPrefix

text \<open>One issue, under the field's name, for a field whose value its schema rejected.\<close>

definition issue :: "string \<Rightarrow> 'a option \<Rightarrow> string list" where
  "issue name r = (case r of None \<Rightarrow> [name] | Some _ \<Rightarrow> [])"

text \<open>
  The shape of \<^verbatim>\<open>configSchema\<close>, one schema per key. \<open>virtualRootRouteSchema\<close> is declared
  in another module of the generator and is a parameter here: the parser of a virtual root
  route structure.
\<close>

definition s_virtualRouteConfig :: "(json \<Rightarrow> json option) \<Rightarrow> json \<Rightarrow> json option option" where
  "s_virtualRouteConfig virtualRootRouteSchema =
     z_optional (z_or virtualRootRouteSchema (\<lambda>j. map_option JStr (z_string j)))"

definition s_routeFilePrefix :: "json \<Rightarrow> string option option" where
  "s_routeFilePrefix = z_optional z_string"

definition s_routeFileIgnorePrefix :: "json \<Rightarrow> string option" where
  "s_routeFileIgnorePrefix = z_default (JStr ''-'') (z_optional z_string)"

definition s_routeFileIgnorePattern :: "json \<Rightarrow> string option option" where
  "s_routeFileIgnorePattern = z_optional z_string"

definition s_routesDirectory :: "json \<Rightarrow> string option" where
  "s_routesDirectory = z_default (JStr ''./src/routes'') (z_optional z_string)"

definition s_generatedRouteTree :: "json \<Rightarrow> string option" where
  "s_generatedRouteTree = z_default (JStr ''./src/routeTree.gen.ts'') (z_optional z_string)"

definition s_quoteStyle :: "json \<Rightarrow> string option" where
  "s_quoteStyle = z_default (JStr ''single'') (z_optional (z_enum [''single'', ''double'']))"

definition s_semicolons :: "json \<Rightarrow> bool option" where
  "s_semicolons = z_default (JBool False) (z_optional z_boolean)"

definition s_disableTypes :: "json \<Rightarrow> bool option" where
  "s_disableTypes = z_default (JBool False) (z_optional z_boolean)"

definition s_addExtensions :: "json \<Rightarrow> bool option" where
  "s_addExtensions = z_default (JBool False) (z_optional z_boolean)"

definition s_disableLogging :: "json \<Rightarrow> bool option" where
  "s_disableLogging = z_default (JBool False) (z_optional z_boolean)"

definition s_disableManifestGeneration :: "json \<Rightarrow> bool option" where
  "s_disableManifestGeneration = z_default (JBool False) (z_optional z_boolean)"

definition s_apiBase :: "json \<Rightarrow> string option" where
  "s_apiBase = z_default (JStr ''/api'') (z_optional z_string)"

definition s_routeTreeFileHeader :: "json \<Rightarrow> string list option" where
  "s_routeTreeFileHeader =
     z_default
       (JArr [JStr ''/* eslint-disable */'',
              JStr ''// @ts-nocheck'',
              JStr ''// noinspection JSUnusedGlobalSymbols''])
       (z_optional (z_array z_string))"

definition s_routeTreeFileFooter :: "json \<Rightarrow> string list option" where
  "s_routeTreeFileFooter = z_default (JArr []) (z_optional (z_array z_string))"

definition s_autoCodeSplitting :: "json \<Rightarrow> bool option option" where
  "s_autoCodeSplitting = z_optional z_boolean"

definition s_indexToken :: "json \<Rightarrow> string option" where
  "s_indexToken = z_default (JStr ''index'') (z_optional z_string)"

definition s_routeToken :: "json \<Rightarrow> string option" where
  "s_routeToken = z_default (JStr ''route'') (z_optional z_string)"

definition s_pathParamsAllowedCharacters :: "json \<Rightarrow> string list option option" where
  "s_pathParamsAllowedCharacters =
     z_optional (z_array (z_enum ['';'', '':'', ''@'', ''&'', ''='', ''+'', ''$'', '','']))"

definition s_customScaffolding :: "json \<Rightarrow> CustomScaffolding option" where
  "s_customScaffolding = z_default defaultTemplate (z_optional customScaffolding_schema)"

definition s_experimental :: "json \<Rightarrow> Experimental option option" where
  "s_experimental = z_optional experimental_schema"

text \<open>The issues of \<^verbatim>\<open>configSchema.parse(ob)\<close>: the keys whose value was rejected, in the order
  of the shape.\<close>

definition configSchema_issues :: "(json \<Rightarrow> json option) \<Rightarrow> obj \<Rightarrow> string list" where
  "configSchema_issues vs ob =
     issue ''virtualRouteConfig'' (s_virtualRouteConfig vs (obj_get ob ''virtualRouteConfig'')) @
     issue ''routeFilePrefix'' (s_routeFilePrefix (obj_get ob ''routeFilePrefix'')) @
     issue ''routeFileIgnorePrefix'' (s_routeFileIgnorePrefix (obj_get ob ''routeFileIgnorePrefix'')) @
     issue ''routeFileIgnorePattern'' (s_routeFileIgnorePattern (obj_get ob ''routeFileIgnorePattern'')) @
     issue ''routesDirectory'' (s_routesDirectory (obj_get ob ''routesDirectory'')) @
     issue ''generatedRouteTree'' (s_generatedRouteTree (obj_get ob ''generatedRouteTree'')) @
     issue ''quoteStyle'' (s_quoteStyle (obj_get ob ''quoteStyle'')) @
     issue ''semicolons'' (s_semicolons (obj_get ob ''semicolons'')) @
     issue ''disableTypes'' (s_disableTypes (obj_get ob ''disableTypes'')) @
     issue ''addExtensions'' (s_addExtensions (obj_get ob ''addExtensions'')) @
     issue ''disableLogging'' (s_disableLogging (obj_get ob ''disableLogging'')) @
     issue ''disableManifestGeneration''
       (s_disableManifestGeneration (obj_get ob ''disableManifestGeneration'')) @
     issue ''apiBase'' (s_apiBase (obj_get ob ''apiBase'')) @
     issue ''routeTreeFileHeader'' (s_routeTreeFileHeader (obj_get ob ''routeTreeFileHeader'')) @
     issue ''routeTreeFileFooter'' (s_routeTreeFileFooter (obj_get ob ''routeTreeFileFooter'')) @
     issue ''autoCodeSplitting'' (s_autoCodeSplitting (obj_get ob ''autoCodeSplitting'')) @
     issue ''indexToken'' (s_indexToken (obj_get ob ''indexToken'')) @
     issue ''routeToken'' (s_routeToken (obj_get ob ''routeToken'')) @
     issue ''pathParamsAllowedCharacters''
       (s_pathParamsAllowedCharacters (obj_get ob ''pathParamsAllowedCharacters'')) @
     issue ''customScaffolding'' (s_customScaffolding (obj_get ob ''customScaffolding'')) @
     issue ''experimental'' (s_experimental (obj_get ob ''experimental''))"

text \<open>
  \<^verbatim>\<open>configSchema.parse(ob)\<close>: the typed configuration when no key has an issue (each
  \<open>the\<close> below then stands on a \<open>Some\<close>), the schema error otherwise.
\<close>

definition configSchema_parse :: "(json \<Rightarrow> json option) \<Rightarrow> obj \<Rightarrow> error + Config" where
  "configSchema_parse vs ob =
     (if configSchema_issues vs ob \<noteq> [] then Inl (SchemaViolation (configSchema_issues vs ob))
      else Inr
        \<lparr>virtualRouteConfig = the (s_virtualRouteConfig vs (obj_get ob ''virtualRouteConfig'')),
         routeFilePrefix = the (s_routeFilePrefix (obj_get ob ''routeFilePrefix'')),
         routeFileIgnorePrefix = the (s_routeFileIgnorePrefix (obj_get ob ''routeFileIgnorePrefix'')),
         routeFileIgnorePattern = the (s_routeFileIgnorePattern (obj_get ob ''routeFileIgnorePattern'')),
         routesDirectory = the (s_routesDirectory (obj_get ob ''routesDirectory'')),
         generatedRouteTree = the (s_generatedRouteTree (obj_get ob ''generatedRouteTree'')),
         quoteStyle = the (s_quoteStyle (obj_get ob ''quoteStyle'')),
         semicolons = the (s_semicolons (obj_get ob ''semicolons'')),
         disableTypes = the (s_disableTypes (obj_get ob ''disableTypes'')),
         addExtensions = the (s_addExtensions (obj_get ob ''addExtensions'')),
         disableLogging = the (s_disableLogging (obj_get ob ''disableLogging'')),
         disableManifestGeneration =
           the (s_disableManifestGeneration (obj_get ob ''disableManifestGeneration'')),
         apiBase = the (s_apiBase (obj_get ob ''apiBase'')),
         routeTreeFileHeader = the (s_routeTreeFileHeader (obj_get ob ''routeTreeFileHeader'')),
         routeTreeFileFooter = the (s_routeTreeFileFooter (obj_get ob ''routeTreeFileFooter'')),
         autoCodeSplitting = the (s_autoCodeSplitting (obj_get ob ''autoCodeSplitting'')),
         indexToken = the (s_indexToken (obj_get ob ''indexToken'')),
         routeToken = the (s_routeToken (obj_get ob ''routeToken'')),
         pathParamsAllowedCharacters =
           the (s_pathParamsAllowedCharacters (obj_get ob ''pathParamsAllowedCharacters'')),
         customScaffolding = the (s_customScaffolding (obj_get ob ''customScaffolding'')),
         experimental = the (s_experimental (obj_get ob ''experimental''))\<rparr>)"


section \<open>The environment\<close>

text \<open>
  What \<^verbatim>\<open>config.ts\<close> reads from outside: the working directory (\<^verbatim>\<open>process.cwd()\<close>), which
  paths exist (\<^verbatim>\<open>existsSync\<close>), what \<^verbatim>\<open>JSON.parse(readFileSync(p, 'utf-8'))\<close> gives for a path
  and what the default export of the module at a path is once \<^verbatim>\<open>tsImport\<close> has loaded it,
  each of the two either a value or the message of the error thrown. The first three are
  the state of the process and of the file system. The last is the outcome of running the
  code of the module in this call: that code may read a clock, a random source or state of
  its own, so two calls on one file system need not agree on it.
\<close>

record env =
  cwd :: string
  existsSync :: "string \<Rightarrow> bool"
  readJson :: "string \<Rightarrow> string + json"
  importDefault :: "string \<Rightarrow> string + json"


section \<open>\<^verbatim>\<open>resolveConfigPath\<close>, \<^verbatim>\<open>readConfig\<close>, \<^verbatim>\<open>getConfig\<close>, \<^verbatim>\<open>validateConfig\<close>\<close>

definition resolveConfigPath :: "env \<Rightarrow> string \<Rightarrow> string option" where
  "resolveConfigPath e configDirectory =
     (let jsConfigPath = path_resolve (cwd e) [configDirectory, ''tsr.config.js''];
          jsonConfigPath = path_resolve (cwd e) [configDirectory, ''tsr.config.json'']
      in if existsSync e jsonConfigPath then Some jsonConfigPath
         else if existsSync e jsConfigPath then Some jsConfigPath
         else None)"

text \<open>The table of loaders, by extension; \<open>None\<close> where the table has no entry.\<close>

definition readConfig :: "string \<Rightarrow> (env \<Rightarrow> string \<Rightarrow> string + json) option" where
  "readConfig ext =
     (if ext = ''.json'' then Some (\<lambda>e configFilePathJson. readJson e configFilePathJson)
      else if ext = ''.js'' then Some (\<lambda>e configFilePathJs. importDefault e configFilePathJs)
      else None)"

text \<open>\<^verbatim>\<open>s.replace(/\.(ts|tsx)$/, '.js')\<close>: the pattern is anchored at the end of the string.\<close>

definition ends_with :: "string \<Rightarrow> string \<Rightarrow> bool" where
  "ends_with suffix s = (length suffix \<le> length s \<and> drop (length s - length suffix) s = suffix)"

definition replace_ts_ext :: "string \<Rightarrow> string" where
  "replace_ts_ext s =
     (if ends_with ''.ts'' s then take (length s - 3) s @ ''.js''
      else if ends_with ''.tsx'' s then take (length s - 4) s @ ''.js''
      else s)"

text \<open>\<^verbatim>\<open>String.prototype.trim\<close>: white space and line terminators, among the code units below
  256.\<close>

definition is_js_space :: "char \<Rightarrow> bool" where
  "is_js_space c =
     (c \<in> set [CHR 0x09, CHR 0x0A, CHR 0x0B, CHR 0x0C, CHR 0x0D, CHR 0x20, CHR 0xA0])"

definition trim :: "string \<Rightarrow> string" where
  "trim s = rev (dropWhile is_js_space (rev (dropWhile is_js_space s)))"

definition validateConfig :: "Config \<Rightarrow> error + Config" where
  "validateConfig config =
     (if (case experimental config of None \<Rightarrow> None | Some x \<Rightarrow> enableCodeSplitting x) \<noteq> None
      then Inl DeprecatedFlag
      else if indexToken config = routeToken config then Inl TokenCollision
      else if routeFileIgnorePrefix config \<noteq> [] \<and> trim (routeFileIgnorePrefix config) = ''_''
      then Inl ReservedPrefix
      else Inr config)"

text \<open>
  Lines 112 to 129 of \<^verbatim>\<open>getConfig\<close>: the configuration parsed from the file's object with the
  inline one spread over it, or from the inline one alone when no file was found or its
  extension has no loader. An error of the loader or of the schema ends the call.
\<close>

definition load_config ::
  "(json \<Rightarrow> json option) \<Rightarrow> env \<Rightarrow> obj \<Rightarrow> string option \<Rightarrow> error + Config" where
  "load_config vs e inlineConfig configFilePath =
     (case configFilePath of
        None \<Rightarrow> configSchema_parse vs inlineConfig
      | Some p \<Rightarrow>
          (case readConfig (extname p) of
             None \<Rightarrow> configSchema_parse vs inlineConfig
           | Some configLoader \<Rightarrow>
               (case configLoader e p of
                  Inl msg \<Rightarrow> Inl (LoadFailure msg)
                | Inr fileSystemConfig \<Rightarrow>
                    configSchema_parse vs (spread fileSystemConfig inlineConfig))))"

text \<open>Lines 131 to 137: with types disabled, the generated route tree becomes a \<^verbatim>\<open>.js\<close> file.\<close>

definition rewrite_extension :: "Config \<Rightarrow> Config" where
  "rewrite_extension config =
     (if disableTypes config
      then config\<lparr>generatedRouteTree := replace_ts_ext (generatedRouteTree config)\<rparr>
      else config)"

text \<open>Lines 139 to 163: the two paths against the configuration directory, when it is a
  non-empty string.\<close>

definition resolve_paths :: "env \<Rightarrow> string \<Rightarrow> Config \<Rightarrow> Config" where
  "resolve_paths e configDirectory config =
     (if configDirectory \<noteq> [] then
        (if isAbsolute configDirectory then
           config\<lparr>routesDirectory :=
                    path_resolve (cwd e) [configDirectory, routesDirectory config],
                  generatedRouteTree :=
                    path_resolve (cwd e) [configDirectory, generatedRouteTree config]\<rparr>
         else
           config\<lparr>routesDirectory :=
                    path_resolve (cwd e) [cwd e, configDirectory, routesDirectory config],
                  generatedRouteTree :=
                    path_resolve (cwd e) [cwd e, configDirectory, generatedRouteTree config]\<rparr>)
      else config)"

text \<open>
  \<^verbatim>\<open>getConfig(inlineConfig, configDirectory)\<close>; the second argument is \<open>None\<close> when the
  caller passes none.
\<close>

definition getConfig ::
  "(json \<Rightarrow> json option) \<Rightarrow> env \<Rightarrow> obj \<Rightarrow> string option \<Rightarrow> error + Config" where
  "getConfig vs e inlineConfig configDirectoryArg =
     (let configDirectory = (case configDirectoryArg of None \<Rightarrow> cwd e | Some d \<Rightarrow> d);
          configFilePath = resolveConfigPath e configDirectory
      in case load_config vs e inlineConfig configFilePath of
           Inl err \<Rightarrow> Inl err
         | Inr config \<Rightarrow>
             validateConfig (resolve_paths e configDirectory (rewrite_extension config)))"


section \<open>Notions used in the statements and their proofs\<close>

text \<open>A path component that names a file: not empty, without a slash, neither \<^verbatim>\<open>.\<close> nor
  \<^verbatim>\<open>..\<close>.\<close>

definition is_file_name :: "string \<Rightarrow> bool" where
  "is_file_name n = (n \<noteq> [] \<and> CHR ''/'' \<notin> set n \<and> n \<noteq> ''.'' \<and> n \<noteq> ''..'')"

text \<open>What may stand in front of the last component of a path: nothing, or text up to a
  slash.\<close>

definition dir_prefix :: "string \<Rightarrow> bool" where
  "dir_prefix d = (d = [] \<or> last d = CHR ''/'')"

text \<open>The two candidate paths of \<^verbatim>\<open>resolveConfigPath\<close>.\<close>

definition jsonConfigPath :: "env \<Rightarrow> string \<Rightarrow> string" where
  "jsonConfigPath e configDirectory = path_resolve (cwd e) [configDirectory, ''tsr.config.json'']"

definition jsConfigPath :: "env \<Rightarrow> string \<Rightarrow> string" where
  "jsConfigPath e configDirectory = path_resolve (cwd e) [configDirectory, ''tsr.config.js'']"

text \<open>The directory \<^verbatim>\<open>getConfig\<close> works with: the argument, or the working directory.\<close>

definition effective_directory :: "env \<Rightarrow> string option \<Rightarrow> string" where
  "effective_directory e configDirectoryArg =
     (case configDirectoryArg of None \<Rightarrow> cwd e | Some d \<Rightarrow> d)"


text \<open>
  \<open>reads_fields vs ob c\<close>: every field of the configuration \<open>c\<close> is what the schema of
  its key makes of the value that \<open>ob\<close> has under that key.
\<close>

definition reads_fields :: "(json \<Rightarrow> json option) \<Rightarrow> obj \<Rightarrow> Config \<Rightarrow> bool" where
  "reads_fields vs ob c =
     (s_virtualRouteConfig vs (obj_get ob ''virtualRouteConfig'') = Some (virtualRouteConfig c)
      \<and> s_routeFilePrefix (obj_get ob ''routeFilePrefix'') = Some (routeFilePrefix c)
      \<and> s_routeFileIgnorePrefix (obj_get ob ''routeFileIgnorePrefix'') =
          Some (routeFileIgnorePrefix c)
      \<and> s_routeFileIgnorePattern (obj_get ob ''routeFileIgnorePattern'') =
          Some (routeFileIgnorePattern c)
      \<and> s_routesDirectory (obj_get ob ''routesDirectory'') = Some (routesDirectory c)
      \<and> s_generatedRouteTree (obj_get ob ''generatedRouteTree'') = Some (generatedRouteTree c)
      \<and> s_quoteStyle (obj_get ob ''quoteStyle'') = Some (quoteStyle c)
      \<and> s_semicolons (obj_get ob ''semicolons'') = Some (semicolons c)
      \<and> s_disableTypes (obj_get ob ''disableTypes'') = Some (disableTypes c)
      \<and> s_addExtensions (obj_get ob ''addExtensions'') = Some (addExtensions c)
      \<and> s_disableLogging (obj_get ob ''disableLogging'') = Some (disableLogging c)
      \<and> s_disableManifestGeneration (obj_get ob ''disableManifestGeneration'') =
          Some (disableManifestGeneration c)
      \<and> s_apiBase (obj_get ob ''apiBase'') = Some (apiBase c)
      \<and> s_routeTreeFileHeader (obj_get ob ''routeTreeFileHeader'') = Some (routeTreeFileHeader c)
      \<and> s_routeTreeFileFooter (obj_get ob ''routeTreeFileFooter'') = Some (routeTreeFileFooter c)
      \<and> s_autoCodeSplitting (obj_get ob ''autoCodeSplitting'') = Some (autoCodeSplitting c)
      \<and> s_indexToken (obj_get ob ''indexToken'') = Some (indexToken c)
      \<and> s_routeToken (obj_get ob ''routeToken'') = Some (routeToken c)
      \<and> s_pathParamsAllowedCharacters (obj_get ob ''pathParamsAllowedCharacters'') =
          Some (pathParamsAllowedCharacters c)
      \<and> s_customScaffolding (obj_get ob ''customScaffolding'') = Some (customScaffolding c)
      \<and> s_experimental (obj_get ob ''experimental'') = Some (experimental c))"

text \<open>\<open>field_equal k c c'\<close>: the field that the key \<open>k\<close> names has the same value in \<open>c\<close> and
  in \<open>c'\<close>. A key that the schema does not name has no field.\<close>

definition field_equal :: "string \<Rightarrow> Config \<Rightarrow> Config \<Rightarrow> bool" where
  "field_equal k c c' =
     (if k = ''virtualRouteConfig'' then virtualRouteConfig c = virtualRouteConfig c'
      else if k = ''routeFilePrefix'' then routeFilePrefix c = routeFilePrefix c'
      else if k = ''routeFileIgnorePrefix'' then routeFileIgnorePrefix c = routeFileIgnorePrefix c'
      else if k = ''routeFileIgnorePattern'' then
        routeFileIgnorePattern c = routeFileIgnorePattern c'
      else if k = ''routesDirectory'' then routesDirectory c = routesDirectory c'
      else if k = ''generatedRouteTree'' then generatedRouteTree c = generatedRouteTree c'
      else if k = ''quoteStyle'' then quoteStyle c = quoteStyle c'
      else if k = ''semicolons'' then semicolons c = semicolons c'
      else if k = ''disableTypes'' then disableTypes c = disableTypes c'
      else if k = ''addExtensions'' then addExtensions c = addExtensions c'
      else if k = ''disableLogging'' then disableLogging c = disableLogging c'
      else if k = ''disableManifestGeneration'' then
        disableManifestGeneration c = disableManifestGeneration c'
      else if k = ''apiBase'' then apiBase c = apiBase c'
      else if k = ''routeTreeFileHeader'' then routeTreeFileHeader c = routeTreeFileHeader c'
      else if k = ''routeTreeFileFooter'' then routeTreeFileFooter c = routeTreeFileFooter c'
      else if k = ''autoCodeSplitting'' then autoCodeSplitting c = autoCodeSplitting c'
      else if k = ''indexToken'' then indexToken c = indexToken c'
      else if k = ''routeToken'' then routeToken c = routeToken c'
      else if k = ''pathParamsAllowedCharacters'' then
        pathParamsAllowedCharacters c = pathParamsAllowedCharacters c'
      else if k = ''customScaffolding'' then customScaffolding c = customScaffolding c'
      else if k = ''experimental'' then experimental c = experimental c'
      else True)"

text \<open>An object without the entries of the key \<open>k\<close>.\<close>

definition without_key :: "string \<Rightarrow> json \<Rightarrow> json" where
  "without_key k v = JObj (filter (\<lambda>kv. fst kv \<noteq> k) (own_entries v))"


section \<open>Concrete inputs\<close>

text \<open>A virtual root route schema that accepts nothing.\<close>

definition no_virtual :: "json \<Rightarrow> json option" where
  "no_virtual j = None"

text \<open>A process in \<^verbatim>\<open>/work\<close> on a file system without any configuration file.\<close>

definition env_no_files :: env where
  "env_no_files =
     \<lparr>cwd = ''/work'',
      existsSync = (\<lambda>p. False),
      readJson = (\<lambda>p. Inl ''ENOENT''),
      importDefault = (\<lambda>p. Inl ''ERR_MODULE_NOT_FOUND'')\<rparr>"

text \<open>
  A process in \<^verbatim>\<open>/work\<close>; the directory \<^verbatim>\<open>/proj\<close> holds both a \<^verbatim>\<open>tsr.config.json\<close> and a
  \<^verbatim>\<open>tsr.config.js\<close>, and the directory \<^verbatim>\<open>/mod\<close> only a \<^verbatim>\<open>tsr.config.js\<close>, a module that
  exports \<^verbatim>\<open>disableLogging\<close> and \<^verbatim>\<open>routesDirectory\<close>.
\<close>

definition proj_json :: json where
  "proj_json = JObj [(''routesDirectory'', JStr ''a''), (''apiBase'', JStr ''/x'')]"

definition mod_js :: json where
  "mod_js =
     JObj [(''disableLogging'', JBool True),
           (''routesDirectory'', JStr ''./configured-routes-path'')]"

definition env_files :: env where
  "env_files =
     \<lparr>cwd = ''/work'',
      existsSync =
        (\<lambda>p. p = ''/proj/tsr.config.json'' \<or> p = ''/proj/tsr.config.js'' \<or>
              p = ''/mod/tsr.config.js''),
      readJson = (\<lambda>p. if p = ''/proj/tsr.config.json'' then Inr proj_json else Inl ''ENOENT''),
      importDefault =
        (\<lambda>p. if p = ''/mod/tsr.config.js'' \<or> p = ''/proj/tsr.config.js'' then Inr mod_js
              else Inl ''ERR_MODULE_NOT_FOUND'')\<rparr>"

text \<open>The configuration of an empty object: every default of the schema.\<close>

definition default_config :: Config where
  "default_config =
     \<lparr>virtualRouteConfig = None,
      routeFilePrefix = None,
      routeFileIgnorePrefix = ''-'',
      routeFileIgnorePattern = None,
      routesDirectory = ''./src/routes'',
      generatedRouteTree = ''./src/routeTree.gen.ts'',
      quoteStyle = ''single'',
      semicolons = False,
      disableTypes = False,
      addExtensions = False,
      disableLogging = False,
      disableManifestGeneration = False,
      apiBase = ''/api'',
      routeTreeFileHeader =
        [''/* eslint-disable */'', ''// @ts-nocheck'', ''// noinspection JSUnusedGlobalSymbols''],
      routeTreeFileFooter = [],
      autoCodeSplitting = None,
      indexToken = ''index'',
      routeToken = ''route'',
      pathParamsAllowedCharacters = None,
      customScaffolding =
        \<lparr>routeTemplate = defaultTemplate_routeTemplate,
         apiTemplate = defaultTemplate_apiTemplate\<rparr>,
      experimental = None\<rparr>"


section \<open>The configuration as an object\<close>

text \<open>
  The configuration as the JavaScript object that \<^verbatim>\<open>getConfig\<close> returns: every field
  under its key, \<^verbatim>\<open>undefined\<close> for an optional field that is not set.
\<close>

definition opt_json :: "('a \<Rightarrow> json) \<Rightarrow> 'a option \<Rightarrow> json" where
  "opt_json enc x = (case x of None \<Rightarrow> JUndefined | Some v \<Rightarrow> enc v)"

definition strings_json :: "string list \<Rightarrow> json" where
  "strings_json xs = JArr (map JStr xs)"

definition experimental_object :: "Experimental \<Rightarrow> obj" where
  "experimental_object x = [(''enableCodeSplitting'', opt_json JBool (enableCodeSplitting x))]"

definition customScaffolding_object :: "CustomScaffolding \<Rightarrow> obj" where
  "customScaffolding_object x =
     [(''routeTemplate'', JStr (routeTemplate x)), (''apiTemplate'', JStr (apiTemplate x))]"

definition config_object :: "Config \<Rightarrow> obj" where
  "config_object c =
     [(''virtualRouteConfig'', opt_json id (virtualRouteConfig c)),
      (''routeFilePrefix'', opt_json JStr (routeFilePrefix c)),
      (''routeFileIgnorePrefix'', JStr (routeFileIgnorePrefix c)),
      (''routeFileIgnorePattern'', opt_json JStr (routeFileIgnorePattern c)),
      (''routesDirectory'', JStr (routesDirectory c)),
      (''generatedRouteTree'', JStr (generatedRouteTree c)),
      (''quoteStyle'', JStr (quoteStyle c)),
      (''semicolons'', JBool (semicolons c)),
      (''disableTypes'', JBool (disableTypes c)),
      (''addExtensions'', JBool (addExtensions c)),
      (''disableLogging'', JBool (disableLogging c)),
      (''disableManifestGeneration'', JBool (disableManifestGeneration c)),
      (''apiBase'', JStr (apiBase c)),
      (''routeTreeFileHeader'', strings_json (routeTreeFileHeader c)),
      (''routeTreeFileFooter'', strings_json (routeTreeFileFooter c)),
      (''autoCodeSplitting'', opt_json JBool (autoCodeSplitting c)),
      (''indexToken'', JStr (indexToken c)),
      (''routeToken'', JStr (routeToken c)),
      (''pathParamsAllowedCharacters'', opt_json strings_json (pathParamsAllowedCharacters c)),
      (''customScaffolding'', JObj (customScaffolding_object (customScaffolding c))),
      (''experimental'', opt_json (\<lambda>x. JObj (experimental_object x)) (experimental c))]"

text \<open>The keys whose schema is a string, a boolean, an enumeration or an array of these: the
  value of such a field is the entry itself.\<close>

definition plain_keys :: "string list" where
  "plain_keys =
     [''routeFilePrefix'', ''routeFileIgnorePrefix'', ''routeFileIgnorePattern'',
      ''routesDirectory'', ''generatedRouteTree'', ''quoteStyle'', ''semicolons'',
      ''disableTypes'', ''addExtensions'', ''disableLogging'', ''disableManifestGeneration'',
      ''apiBase'', ''routeTreeFileHeader'', ''routeTreeFileFooter'', ''autoCodeSplitting'',
      ''indexToken'', ''routeToken'', ''pathParamsAllowedCharacters'']"

text \<open>
  \<open>structured_entries vs ob c\<close>: what the three remaining fields of \<open>c\<close> are, given the
  entries of \<open>ob\<close>. \<^verbatim>\<open>virtualRouteConfig\<close> is what the virtual root route schema makes of
  its entry, or the entry itself, a string, when that schema rejects it.
  \<^verbatim>\<open>customScaffolding\<close> has, for each of its two templates, the entry's own value, or the
  default template where the entry has none. \<^verbatim>\<open>experimental\<close> has the entry's own
  \<^verbatim>\<open>enableCodeSplitting\<close>. An \<^verbatim>\<open>undefined\<close> entry gives the field of \<open>default_config\<close>.
\<close>

definition structured_entries :: "(json \<Rightarrow> json option) \<Rightarrow> obj \<Rightarrow> Config \<Rightarrow> bool" where
  "structured_entries vs ob c =
     (virtualRouteConfig c =
        (if obj_get ob ''virtualRouteConfig'' = JUndefined then None
         else (case vs (obj_get ob ''virtualRouteConfig'') of
                 Some v \<Rightarrow> Some v
               | None \<Rightarrow> Some (obj_get ob ''virtualRouteConfig'')))
      \<and> (obj_get ob ''virtualRouteConfig'' \<noteq> JUndefined \<and>
           vs (obj_get ob ''virtualRouteConfig'') = None \<longrightarrow>
             (\<exists>s. obj_get ob ''virtualRouteConfig'' = JStr s))
      \<and> (if obj_get ob ''customScaffolding'' = JUndefined
          then customScaffolding c = customScaffolding default_config
          else (\<exists>entries. obj_get ob ''customScaffolding'' = JObj entries \<and>
                 (\<forall>k \<in> {''routeTemplate'', ''apiTemplate''}.
                    obj_get (customScaffolding_object (customScaffolding c)) k =
                      (if obj_get entries k = JUndefined
                       then obj_get (customScaffolding_object (customScaffolding default_config)) k
                       else obj_get entries k))))
      \<and> (if obj_get ob ''experimental'' = JUndefined then experimental c = None
          else (\<exists>entries x. obj_get ob ''experimental'' = JObj entries \<and>
                 experimental c = Some x \<and>
                 obj_get (experimental_object x) ''enableCodeSplitting'' =
                   obj_get entries ''enableCodeSplitting'')))"


section \<open>Further concrete inputs\<close>

text \<open>A second run of the process of \<open>env_files\<close> on the same file system, in which the
  code of the script modules evaluates to another default export.\<close>

definition env_files_reloaded :: env where
  "env_files_reloaded =
     env_files
       \<lparr>importDefault :=
          (\<lambda>p. if p = ''/mod/tsr.config.js'' \<or> p = ''/proj/tsr.config.js''
                then Inr (JObj [(''routesDirectory'', JStr ''./other-routes'')])
                else Inl ''ERR_MODULE_NOT_FOUND'')\<rparr>"

text \<open>The file system of \<open>env_files\<close> with one more file, outside the directories that are
  searched.\<close>

definition env_files_touched :: env where
  "env_files_touched =
     env_files
       \<lparr>existsSync := (\<lambda>p. existsSync env_files p \<or> p = ''/elsewhere/tsr.config.json''),
        readJson :=
          (\<lambda>p. if p = ''/elsewhere/tsr.config.json'' then Inr JNull else readJson env_files p)\<rparr>"


section \<open>Facts about paths\<close>

lemma split_slash_nonempty: "split_slash p \<noteq> []"
  by (induction p) (auto split: list.splits)

lemma split_slash_append:
  "split_slash (a @ CHR ''/'' # b) = split_slash a @ split_slash b"
proof (induction a)
  case Nil
  show ?case by simp
next
  case (Cons c a)
  show ?case
  proof (cases "c = CHR ''/''")
    case True
    with Cons show ?thesis by simp
  next
    case False
    obtain s ss where s: "split_slash a = s # ss"
      using split_slash_nonempty [of a] by (cases "split_slash a") auto
    with False Cons show ?thesis by simp
  qed
qed

lemma split_slash_name: "CHR ''/'' \<notin> set n \<Longrightarrow> split_slash n = [n]"
  by (induction n) auto

lemma split_slash_dir_name:
  assumes "dir_prefix d" and "CHR ''/'' \<notin> set n"
  shows "\<exists>segs. split_slash (d @ n @ ''/'') = segs @ [n, []]"
proof (cases "d = []")
  case True
  have "split_slash (n @ CHR ''/'' # []) = split_slash n @ split_slash []"
    by (rule split_slash_append)
  with True assms(2) show ?thesis by (simp add: split_slash_name)
next
  case False
  with assms(1) have "d = butlast d @ ''/''"
    by (simp add: dir_prefix_def) (metis append_butlast_last_id)
  then obtain y where y: "d = y @ ''/''" ..
  have "split_slash (y @ CHR ''/'' # (n @ CHR ''/'' # [])) = split_slash y @ split_slash (n @ CHR ''/'' # [])"
    by (rule split_slash_append)
  also have "split_slash (n @ CHR ''/'' # []) = split_slash n @ split_slash []"
    by (rule split_slash_append)
  finally show ?thesis using y assms(2) by (simp add: split_slash_name)
qed

lemma join_slash_snoc:
  "join_slash (xs @ [n]) = (if xs = [] then n else join_slash xs @ CHR ''/'' # n)"
  by (induction xs rule: join_slash.induct) auto

lemma normalizeString_dir_name:
  assumes "dir_prefix d" and "is_file_name n"
  shows "\<exists>q. normalizeString (d @ n @ ''/'') b = q @ n \<and> dir_prefix q"
proof -
  from assms obtain segs where segs: "split_slash (d @ n @ ''/'') = segs @ [n, []]"
    using split_slash_dir_name [of d n] by (auto simp: is_file_name_def)
  define st where "st = fold (normalize_step b) segs []"
  have "fold (normalize_step b) (segs @ [n, []]) [] = n # st"
    using assms(2) by (simp add: st_def normalize_step_def is_file_name_def)
  then have "normalizeString (d @ n @ ''/'') b = join_slash (rev st @ [n])"
    by (simp add: normalizeString_def segs)
  then show ?thesis
    by (cases "rev st = []") (auto simp: join_slash_snoc dir_prefix_def)
qed

lemma resolve_loop_prefix:
  "dir_prefix acc0 \<Longrightarrow> \<exists>pre. fst (resolve_loop ps (acc0 @ acc)) = pre @ acc \<and> dir_prefix pre"
proof (induction ps arbitrary: acc0)
  case Nil
  then show ?case by auto
next
  case (Cons p ps)
  show ?case
  proof (cases "p = []")
    case True
    with Cons show ?thesis by simp
  next
    case False
    have dp: "dir_prefix (p @ CHR ''/'' # acc0)"
      using Cons.prems by (auto simp: dir_prefix_def)
    show ?thesis
    proof (cases "isAbsolute p")
      case True
      with False dp show ?thesis 
        by (intro exI [of _ "p @ CHR ''/'' # acc0"]) simp
    next
      case no: False
      from Cons.IH [OF dp] False no show ?thesis by simp
    qed
  qed
qed

lemma resolve_loop_absolute:
  "\<exists>p \<in> set ps. isAbsolute p \<Longrightarrow> snd (resolve_loop ps acc) = True"
proof (induction ps arbitrary: acc)
  case Nil
  then show ?case by simp
next
  case (Cons p ps)
  then show ?case by (cases "p = []") (auto simp: isAbsolute_def)
qed

lemma path_resolve_absolute:
  assumes "isAbsolute wd \<or> (\<exists>p \<in> set args. isAbsolute p)"
  shows "isAbsolute (path_resolve wd args)"
proof -
  from assms have "\<exists>p \<in> set (rev args @ [wd]). isAbsolute p" by auto
  then have "snd (resolve_loop (rev args @ [wd]) []) = True"
    by (rule resolve_loop_absolute)
  then show ?thesis
    by (cases "resolve_loop (rev args @ [wd]) []") (simp add: path_resolve_def isAbsolute_def)
qed

lemma path_resolve_file_name:
  assumes "dir_prefix d" and "is_file_name n"
  shows "\<exists>q. path_resolve wd (args @ [d @ n]) = q @ n \<and> dir_prefix q"
proof -
  let ?p = "d @ n"
  have ne: "?p \<noteq> []" using assms(2) by (simp add: is_file_name_def)
  have dp: "dir_prefix (d @ [])" using assms(1) by simp
  obtain rp ab where r: "resolve_loop (rev (args @ [?p]) @ [wd]) [] = (rp, ab)"
    by (cases "resolve_loop (rev (args @ [?p]) @ [wd]) []") auto
  have "\<exists>x. rp = x @ n @ ''/'' \<and> dir_prefix x"
  proof (cases "isAbsolute ?p")
    case True
    with r ne have "rp = d @ n @ ''/''" by auto
    with assms(1) show ?thesis by blast
  next
    case False
    have "dir_prefix ((?p @ ''/'') @ [])" by (simp add: dir_prefix_def)
    have "\<exists>pre. fst (resolve_loop (rev args @ [wd]) ([] @ (?p @ ''/''))) = pre @ (?p @ ''/'') \<and> dir_prefix pre"
      by (rule resolve_loop_prefix) (simp add: dir_prefix_def)
    then obtain pre where pre: "fst (resolve_loop (rev args @ [wd]) (?p @ ''/'')) = pre @ ?p @ ''/''"
      and dpre: "dir_prefix pre" by auto
    from r ne False have "rp = fst (resolve_loop (rev args @ [wd]) (?p @ ''/''))" by auto
    with pre have "rp = (pre @ d) @ n @ ''/''" by simp
    moreover have "dir_prefix (pre @ d)" using dpre assms(1) by (cases "d = []") (auto simp: dir_prefix_def)
    ultimately show ?thesis by blast
  qed
  then obtain x where x: "rp = x @ n @ ''/''" and dx: "dir_prefix x" by auto
  obtain q where q: "normalizeString rp (\<not> ab) = q @ n" and dq: "dir_prefix q"
    using normalizeString_dir_name [OF dx assms(2), of "\<not> ab"] x by auto
  show ?thesis
  proof (cases ab)
    case True
    with r q have "path_resolve wd (args @ [?p]) = (CHR ''/'' # q) @ n"
      by (simp add: path_resolve_def)
    moreover have "dir_prefix (CHR ''/'' # q)" using dq by (auto simp: dir_prefix_def)
    ultimately show ?thesis by blast
  next
    case False
    have "q @ n \<noteq> []" using assms(2) by (simp add: is_file_name_def)
    with False r q have "path_resolve wd (args @ [?p]) = q @ n"
      by (simp add: path_resolve_def)
    with dq show ?thesis by blast
  qed
qed

lemma last_component_file_name:
  assumes "dir_prefix q" and "n \<noteq> []" and "CHR ''/'' \<notin> set n"
  shows "last_component (q @ n) = n"
proof -
  from assms(2) obtain c cs where rn: "rev n = c # cs" by (cases "rev n") auto
  then have "c \<in> set n" by (metis list.set_intros(1) set_rev)
  with assms(3) have c: "c \<noteq> CHR ''/''" by auto
  have all: "\<forall>x \<in> set (rev n). x \<noteq> CHR ''/''" using assms(3) by auto
  have tq: "takeWhile (\<lambda>c. c \<noteq> CHR ''/'') (rev q) = []"
    using assms(1) by (cases q rule: rev_cases) (auto simp: dir_prefix_def)
  have "dropWhile (\<lambda>c. c = CHR ''/'') (rev (q @ n)) = rev n @ rev q"
    using rn c by simp
  moreover have "takeWhile (\<lambda>c. c \<noteq> CHR ''/'') (rev n @ rev q) = rev n"
    by (subst takeWhile_append2) (use all tq in auto)
  ultimately show ?thesis by (simp add: last_component_def)
qed

lemma extname_json: "last_component p = ''tsr.config.json'' \<Longrightarrow> extname p = ''.json''"
  by (simp add: extname_def)

lemma extname_js: "last_component p = ''tsr.config.js'' \<Longrightarrow> extname p = ''.js''"
  by (simp add: extname_def)

lemma ends_with_iff: "ends_with suffix s \<longleftrightarrow> (\<exists>pre. s = pre @ suffix)"
proof
  assume "ends_with suffix s"
  then have "s = take (length s - length suffix) s @ suffix"
    by (metis append_take_drop_id ends_with_def)
  then show "\<exists>pre. s = pre @ suffix" ..
next
  assume "\<exists>pre. s = pre @ suffix"
  then show "ends_with suffix s" by (auto simp: ends_with_def)
qed


section \<open>Facts about the configuration file and the pipeline\<close>

lemma tsr_names: "is_file_name ''tsr.config.json''" "is_file_name ''tsr.config.js''"
  by (simp_all add: is_file_name_def)

lemma jsonConfigPath_component: "last_component (jsonConfigPath e d) = ''tsr.config.json''"
proof -
  obtain q where "path_resolve (cwd e) ([d] @ [[] @ ''tsr.config.json'']) = q @ ''tsr.config.json''"
    and "dir_prefix q"
    using path_resolve_file_name [of "[]" "''tsr.config.json''" "cwd e" "[d]"] tsr_names
    by (auto simp: dir_prefix_def)
  then show ?thesis
    by (simp add: jsonConfigPath_def last_component_file_name)
qed

lemma jsConfigPath_component: "last_component (jsConfigPath e d) = ''tsr.config.js''"
proof -
  obtain q where "path_resolve (cwd e) ([d] @ [[] @ ''tsr.config.js'']) = q @ ''tsr.config.js''"
    and "dir_prefix q"
    using path_resolve_file_name [of "[]" "''tsr.config.js''" "cwd e" "[d]"] tsr_names
    by (auto simp: dir_prefix_def)
  then show ?thesis
    by (simp add: jsConfigPath_def last_component_file_name)
qed

lemma configPaths_differ: "jsonConfigPath e d \<noteq> jsConfigPath e d"
proof
  assume "jsonConfigPath e d = jsConfigPath e d"
  then have "last_component (jsonConfigPath e d) = last_component (jsConfigPath e d)" by simp
  then show False by (simp add: jsonConfigPath_component jsConfigPath_component)
qed

lemma configPaths_absolute:
  "isAbsolute (cwd e) \<or> isAbsolute d \<Longrightarrow>
     isAbsolute (jsonConfigPath e d) \<and> isAbsolute (jsConfigPath e d)"
  by (auto simp: jsonConfigPath_def jsConfigPath_def intro: path_resolve_absolute)

lemma resolveConfigPath_cases:
  "resolveConfigPath e d =
     (if existsSync e (jsonConfigPath e d) then Some (jsonConfigPath e d)
      else if existsSync e (jsConfigPath e d) then Some (jsConfigPath e d)
      else None)"
  by (simp add: resolveConfigPath_def jsonConfigPath_def jsConfigPath_def Let_def)

lemma load_config_json:
  "load_config vs e inl (Some (jsonConfigPath e d)) =
     (case readJson e (jsonConfigPath e d) of
        Inl msg \<Rightarrow> Inl (LoadFailure msg)
      | Inr file \<Rightarrow> configSchema_parse vs (spread file inl))"
  by (simp add: load_config_def readConfig_def extname_json jsonConfigPath_component)

lemma load_config_js:
  "load_config vs e inl (Some (jsConfigPath e d)) =
     (case importDefault e (jsConfigPath e d) of
        Inl msg \<Rightarrow> Inl (LoadFailure msg)
      | Inr file \<Rightarrow> configSchema_parse vs (spread file inl))"
  by (simp add: load_config_def readConfig_def extname_js jsConfigPath_component)

lemma load_config_none: "load_config vs e inl None = configSchema_parse vs inl"
  by (simp add: load_config_def)

lemma getConfig_cases:
  "getConfig vs e inl a =
     (case load_config vs e inl (resolveConfigPath e (effective_directory e a)) of
        Inl err \<Rightarrow> Inl err
      | Inr c \<Rightarrow> validateConfig (resolve_paths e (effective_directory e a) (rewrite_extension c)))"
  unfolding getConfig_def effective_directory_def Let_def ..

lemma concrete_paths:
  "jsonConfigPath env_files ''/proj'' = ''/proj/tsr.config.json''"
  "jsConfigPath env_files ''/proj'' = ''/proj/tsr.config.js''"
  "jsonConfigPath env_no_files ''/proj'' = ''/proj/tsr.config.json''"
  "jsConfigPath env_no_files ''/proj'' = ''/proj/tsr.config.js''"
  by (simp_all add: jsonConfigPath_def jsConfigPath_def env_files_def env_no_files_def
      path_resolve_def normalizeString_def normalize_step_def isAbsolute_def)

lemma issue_nil: "issue n r = [] \<longleftrightarrow> r \<noteq> None"
  by (cases r) (simp_all add: issue_def)

lemmas schema_defs = s_virtualRouteConfig_def s_routeFilePrefix_def s_routeFileIgnorePrefix_def
  s_routeFileIgnorePattern_def s_routesDirectory_def s_generatedRouteTree_def s_quoteStyle_def
  s_semicolons_def s_disableTypes_def s_addExtensions_def s_disableLogging_def
  s_disableManifestGeneration_def s_apiBase_def s_routeTreeFileHeader_def
  s_routeTreeFileFooter_def s_autoCodeSplitting_def s_indexToken_def s_routeToken_def
  s_pathParamsAllowedCharacters_def s_customScaffolding_def s_experimental_def

lemmas parse_eval = configSchema_parse_def configSchema_issues_def issue_def schema_defs
  obj_get_def z_default_def z_optional_def z_enum_def z_or_def customScaffolding_schema_def
  experimental_schema_def defaultTemplate_def spread_def

lemmas path_eval = path_resolve_def normalizeString_def normalize_step_def isAbsolute_def

lemmas finish_eval = validateConfig_def resolve_paths_def rewrite_extension_def
  replace_ts_ext_def ends_with_def trim_def is_js_space_def

lemma parse_empty: "configSchema_parse vs [] = Inr default_config"
  by (simp add: parse_eval default_config_def)

lemma validate_normalized:
  "validateConfig (resolve_paths e d (rewrite_extension c)) =
     (case validateConfig c of
        Inl err \<Rightarrow> Inl err
      | Inr _ \<Rightarrow> Inr (resolve_paths e d (rewrite_extension c)))"
  by (simp add: validateConfig_def resolve_paths_def rewrite_extension_def)

lemma validateConfig_Inr: "validateConfig c = Inr c' \<Longrightarrow> c' = c"
  by (simp add: validateConfig_def split: if_splits)

lemma getConfig_Inr:
  "getConfig vs e inl a = Inr c \<longleftrightarrow>
     (\<exists>c0. load_config vs e inl (resolveConfigPath e (effective_directory e a)) = Inr c0 \<and>
           validateConfig c0 = Inr c0 \<and>
           c = resolve_paths e (effective_directory e a) (rewrite_extension c0))"
  by (auto simp: getConfig_cases validate_normalized split: sum.splits dest: validateConfig_Inr)

lemma getConfig_loaded:
  "load_config vs e inl (resolveConfigPath e (effective_directory e a)) = Inr c0 \<Longrightarrow>
     getConfig vs e inl a =
       (case validateConfig c0 of
          Inl err \<Rightarrow> Inl err
        | Inr _ \<Rightarrow> Inr (resolve_paths e (effective_directory e a) (rewrite_extension c0)))"
  by (simp add: getConfig_cases validate_normalized)

lemma normalized_fields:
  "routeFileIgnorePrefix (resolve_paths e d (rewrite_extension c)) = routeFileIgnorePrefix c"
  "indexToken (resolve_paths e d (rewrite_extension c)) = indexToken c"
  "routeToken (resolve_paths e d (rewrite_extension c)) = routeToken c"
  "experimental (resolve_paths e d (rewrite_extension c)) = experimental c"
  "disableTypes (resolve_paths e d (rewrite_extension c)) = disableTypes c"
  by (simp_all add: resolve_paths_def rewrite_extension_def)

lemma no_files_resolve: "resolveConfigPath env_no_files d = None"
  by (simp add: resolveConfigPath_cases) (simp add: env_no_files_def)

lemma trim_empty: "trim [] = []"
  by (simp add: trim_def)


section \<open>Facts about the normalisation\<close>

lemma resolve_paths_fields:
  "routesDirectory (resolve_paths e d c) =
     (if d = [] then routesDirectory c
      else if isAbsolute d then path_resolve (cwd e) [d, routesDirectory c]
      else path_resolve (cwd e) [cwd e, d, routesDirectory c])"
  "generatedRouteTree (resolve_paths e d c) =
     (if d = [] then generatedRouteTree c
      else if isAbsolute d then path_resolve (cwd e) [d, generatedRouteTree c]
      else path_resolve (cwd e) [cwd e, d, generatedRouteTree c])"
  by (simp_all add: resolve_paths_def)

lemma rewrite_extension_fields:
  "routesDirectory (rewrite_extension c) = routesDirectory c"
  "generatedRouteTree (rewrite_extension c) =
     (if disableTypes c then replace_ts_ext (generatedRouteTree c) else generatedRouteTree c)"
  by (simp_all add: rewrite_extension_def)

lemma isAbsolute_nonempty: "isAbsolute p \<Longrightarrow> p \<noteq> []"
  by (auto simp: isAbsolute_def)

lemma ends_with_last: "ends_with suffix s \<Longrightarrow> suffix \<noteq> [] \<Longrightarrow> last s = last suffix"
  by (auto simp: ends_with_iff)

lemma ends_with_same_length:
  "length t = length suffix \<Longrightarrow> ends_with suffix (x @ t) \<longleftrightarrow> t = suffix"
  by (auto simp: ends_with_def)

lemma replace_ts_ext_untyped:
  "\<not> ends_with ''.ts'' (replace_ts_ext s) \<and> \<not> ends_with ''.tsx'' (replace_ts_ext s)"
proof -
  have js: "\<not> ends_with ''.ts'' (x @ ''.js'') \<and> \<not> ends_with ''.tsx'' (x @ ''.js'')" for x
  proof
    show "\<not> ends_with ''.ts'' (x @ ''.js'')"
      using ends_with_same_length [of "''.js''" "''.ts''" x] by simp
    show "\<not> ends_with ''.tsx'' (x @ ''.js'')"
      using ends_with_last [of "''.tsx''" "x @ ''.js''"] by auto
  qed
  show ?thesis
    using js by (simp add: replace_ts_ext_def)
qed

lemma ends_with_file_name:
  assumes "dir_prefix q" and "ends_with suffix (q @ n)" and "CHR ''/'' \<notin> set suffix"
  shows "ends_with suffix n"
proof -
  from assms(2) obtain pre where "q @ n = pre @ suffix"
    by (auto simp: ends_with_iff)
  then obtain us where "(q = pre @ us \<and> us @ n = suffix) \<or> (q @ us = pre \<and> n = us @ suffix)"
    by (auto simp: append_eq_append_conv2)
  then show ?thesis
  proof
    assume h: "q = pre @ us \<and> us @ n = suffix"
    have "us = []"
    proof (rule ccontr)
      assume ne: "us \<noteq> []"
      with h have "q \<noteq> []" and "last q = last us" by auto
      with assms(1) have "last us = CHR ''/''" by (simp add: dir_prefix_def)
      with ne have "CHR ''/'' \<in> set us" by (metis last_in_set)
      with h assms(3) show False by auto
    qed
    with h show ?thesis by (auto simp: ends_with_iff)
  next
    assume "q @ us = pre \<and> n = us @ suffix"
    then show ?thesis by (auto simp: ends_with_iff)
  qed
qed

lemma resolved_file_name_suffix:
  assumes "dir_prefix dp" and "is_file_name n" and "CHR ''/'' \<notin> set suffix"
    and "ends_with suffix (path_resolve w (args @ [dp @ n]))"
  shows "ends_with suffix (dp @ n)"
proof -
  obtain q where q: "path_resolve w (args @ [dp @ n]) = q @ n" and dq: "dir_prefix q"
    using path_resolve_file_name [OF assms(1,2)] by blast
  from assms(4) have "ends_with suffix (q @ n)" by (simp add: q)
  with dq have "ends_with suffix n"
    using assms(3) by (rule ends_with_file_name)
  then show ?thesis by (auto simp: ends_with_iff)
qed

lemma resolve_paths_file_name_suffix:
  assumes "dir_prefix dp" and "is_file_name n" and "CHR ''/'' \<notin> set suffix"
    and "generatedRouteTree c = dp @ n"
    and "ends_with suffix (generatedRouteTree (resolve_paths e d c))"
  shows "ends_with suffix (dp @ n)"
proof (cases "d = []")
  case True
  with assms(4,5) show ?thesis by (simp add: resolve_paths_fields)
next
  case False
  show ?thesis
  proof (cases "isAbsolute d")
    case True
    with False assms(4,5)
    have "ends_with suffix (path_resolve (cwd e) ([d] @ [dp @ n]))"
      by (simp add: resolve_paths_fields)
    with assms(1-3) show ?thesis by (rule resolved_file_name_suffix)
  next
    case rel: False
    with False assms(4,5)
    have "ends_with suffix (path_resolve (cwd e) ([cwd e, d] @ [dp @ n]))"
      by (simp add: resolve_paths_fields)
    with assms(1-3) show ?thesis by (rule resolved_file_name_suffix)
  qed
qed


section \<open>Facts about the merge and the schema\<close>

lemma has_key_map_of: "has_key ob k \<longleftrightarrow> map_of (rev ob) k \<noteq> None"
  by (simp add: has_key_def map_of_eq_None_iff)

lemma obj_get_append:
  "obj_get (a @ b) k = (if has_key b k then obj_get b k else obj_get a k)"
  by (auto simp: obj_get_def has_key_map_of map_add_def split: option.splits)

lemma obj_get_absent: "\<not> has_key ob k \<Longrightarrow> obj_get ob k = JUndefined"
  by (simp add: obj_get_def has_key_map_of)

lemma obj_get_filter:
  "obj_get (filter (\<lambda>kv. fst kv \<noteq> k) ob) k' = (if k' = k then JUndefined else obj_get ob k')"
proof -
  have m: "map_of (filter (\<lambda>kv. fst kv \<noteq> k) xs) k' = (if k' = k then None else map_of xs k')"
    for xs :: obj
    by (induction xs) auto
  show ?thesis
    by (simp add: obj_get_def rev_filter m)
qed

lemma parse_cong:
  "(\<And>k. obj_get ob k = obj_get ob' k) \<Longrightarrow> configSchema_parse vs ob = configSchema_parse vs ob'"
  by (simp add: configSchema_parse_def configSchema_issues_def)

lemma some_the: "r \<noteq> None \<Longrightarrow> r = Some (the r)"
  by simp

lemma parse_reads_fields:
  assumes "configSchema_parse vs ob = Inr c"
  shows "reads_fields vs ob c"
proof -
  from assms have i: "configSchema_issues vs ob = []"
    by (simp add: configSchema_parse_def split: if_splits)
  from assms i have c: "c = projr (configSchema_parse vs ob)" by simp
  from i show ?thesis
    unfolding reads_fields_def
    by (simp add: c configSchema_parse_def configSchema_issues_def issue_nil)
qed

lemma defaults_read: "reads_fields vs [] default_config"
  using parse_reads_fields [OF parse_empty] .

lemma load_config_loaded:
  "readConfig (extname p) = Some configLoader \<Longrightarrow> configLoader e p = Inr file \<Longrightarrow>
     load_config vs e inl (Some p) = configSchema_parse vs (spread file inl)"
  by (simp add: load_config_def)

lemma field_equal_default:
  assumes "reads_fields vs ob c" and "obj_get ob k = JUndefined"
  shows "field_equal k c default_config"
proof -
  have d: "reads_fields vs [] default_config" by (rule defaults_read)
  have u: "obj_get [] k' = JUndefined" for k' by (simp add: obj_get_def)
  note r = assms(1) [unfolded reads_fields_def]
  note d' = d [unfolded reads_fields_def u]
  have f:
    "k = ''virtualRouteConfig'' \<Longrightarrow> virtualRouteConfig c = virtualRouteConfig default_config"
    "k = ''routeFilePrefix'' \<Longrightarrow> routeFilePrefix c = routeFilePrefix default_config"
    "k = ''routeFileIgnorePrefix'' \<Longrightarrow> routeFileIgnorePrefix c = routeFileIgnorePrefix default_config"
    "k = ''routeFileIgnorePattern'' \<Longrightarrow> routeFileIgnorePattern c = routeFileIgnorePattern default_config"
    "k = ''routesDirectory'' \<Longrightarrow> routesDirectory c = routesDirectory default_config"
    "k = ''generatedRouteTree'' \<Longrightarrow> generatedRouteTree c = generatedRouteTree default_config"
    "k = ''quoteStyle'' \<Longrightarrow> quoteStyle c = quoteStyle default_config"
    "k = ''semicolons'' \<Longrightarrow> semicolons c = semicolons default_config"
    "k = ''disableTypes'' \<Longrightarrow> disableTypes c = disableTypes default_config"
    "k = ''addExtensions'' \<Longrightarrow> addExtensions c = addExtensions default_config"
    "k = ''disableLogging'' \<Longrightarrow> disableLogging c = disableLogging default_config"
    "k = ''disableManifestGeneration'' \<Longrightarrow> disableManifestGeneration c = disableManifestGeneration default_config"
    "k = ''apiBase'' \<Longrightarrow> apiBase c = apiBase default_config"
    "k = ''routeTreeFileHeader'' \<Longrightarrow> routeTreeFileHeader c = routeTreeFileHeader default_config"
    "k = ''routeTreeFileFooter'' \<Longrightarrow> routeTreeFileFooter c = routeTreeFileFooter default_config"
    "k = ''autoCodeSplitting'' \<Longrightarrow> autoCodeSplitting c = autoCodeSplitting default_config"
    "k = ''indexToken'' \<Longrightarrow> indexToken c = indexToken default_config"
    "k = ''routeToken'' \<Longrightarrow> routeToken c = routeToken default_config"
    "k = ''pathParamsAllowedCharacters'' \<Longrightarrow> pathParamsAllowedCharacters c = pathParamsAllowedCharacters default_config"
    "k = ''customScaffolding'' \<Longrightarrow> customScaffolding c = customScaffolding default_config"
    "k = ''experimental'' \<Longrightarrow> experimental c = experimental default_config"
    using assms(2) r d' by simp_all
  show ?thesis
    unfolding field_equal_def using f by simp
qed

lemma proj_paths_files:
  "resolveConfigPath env_files ''/proj'' = Some ''/proj/tsr.config.json''"
  "readConfig (extname ''/proj/tsr.config.json'') = Some (\<lambda>e configFilePathJson. readJson e configFilePathJson)"
  "readJson env_files ''/proj/tsr.config.json'' = Inr proj_json"
    apply (simp add: resolveConfigPath_cases concrete_paths, simp add: env_files_def)
   apply (simp add: readConfig_def extname_def last_component_def)
  apply (simp add: env_files_def)
  done


section \<open>The value of a field is its entry\<close>

lemma z_string_inv: "z_string j = Some x \<Longrightarrow> JStr x = j"
  by (cases j) simp_all

lemma z_boolean_inv: "z_boolean j = Some x \<Longrightarrow> JBool x = j"
  by (cases j) simp_all

lemma z_enum_inv: "z_enum vs j = Some x \<Longrightarrow> JStr x = j"
  by (auto simp: z_enum_def split: option.splits if_splits dest: z_string_inv)

lemma those_z_string: "those (map z_string ys) = Some xs \<Longrightarrow> map JStr xs = ys"
proof (induction ys arbitrary: xs)
  case Nil
  then show ?case by simp
next
  case (Cons y ys)
  then show ?case by (auto split: option.splits dest: z_string_inv)
qed

lemma those_z_enum: "those (map (z_enum vs) ys) = Some xs \<Longrightarrow> map JStr xs = ys"
proof (induction ys arbitrary: xs)
  case Nil
  then show ?case by simp
next
  case (Cons y ys)
  then show ?case by (auto split: option.splits dest: z_enum_inv)
qed

lemma z_array_string_inv: "z_array z_string j = Some xs \<Longrightarrow> strings_json xs = j"
  by (cases j) (simp_all add: strings_json_def those_z_string)

lemma z_array_enum_inv: "z_array (z_enum vs) j = Some xs \<Longrightarrow> strings_json xs = j"
  by (cases j) (simp_all add: strings_json_def those_z_enum)

lemma z_optional_inv:
  assumes "\<And>j x. p j = Some x \<Longrightarrow> enc x = j" and "z_optional p j = Some x"
  shows "opt_json enc x = j"
  using assms(2) by (auto simp: z_optional_def opt_json_def split: if_splits dest: assms(1))

lemma z_default_inv:
  assumes "\<And>j x. p j = Some x \<Longrightarrow> enc x = j" and "z_default d (z_optional p) j = Some x"
  shows "enc x = (if j = JUndefined then d else j)"
  using assms(2)
  by (auto simp: z_default_def z_optional_def split: if_splits option.splits dest: assms(1))

lemma config_object_get:
  "obj_get (config_object c) ''virtualRouteConfig'' = opt_json id (virtualRouteConfig c)"
  "obj_get (config_object c) ''routeFilePrefix'' = opt_json JStr (routeFilePrefix c)"
  "obj_get (config_object c) ''routeFileIgnorePrefix'' = JStr (routeFileIgnorePrefix c)"
  "obj_get (config_object c) ''routeFileIgnorePattern'' = opt_json JStr (routeFileIgnorePattern c)"
  "obj_get (config_object c) ''routesDirectory'' = JStr (routesDirectory c)"
  "obj_get (config_object c) ''generatedRouteTree'' = JStr (generatedRouteTree c)"
  "obj_get (config_object c) ''quoteStyle'' = JStr (quoteStyle c)"
  "obj_get (config_object c) ''semicolons'' = JBool (semicolons c)"
  "obj_get (config_object c) ''disableTypes'' = JBool (disableTypes c)"
  "obj_get (config_object c) ''addExtensions'' = JBool (addExtensions c)"
  "obj_get (config_object c) ''disableLogging'' = JBool (disableLogging c)"
  "obj_get (config_object c) ''disableManifestGeneration'' = JBool (disableManifestGeneration c)"
  "obj_get (config_object c) ''apiBase'' = JStr (apiBase c)"
  "obj_get (config_object c) ''routeTreeFileHeader'' = strings_json (routeTreeFileHeader c)"
  "obj_get (config_object c) ''routeTreeFileFooter'' = strings_json (routeTreeFileFooter c)"
  "obj_get (config_object c) ''autoCodeSplitting'' = opt_json JBool (autoCodeSplitting c)"
  "obj_get (config_object c) ''indexToken'' = JStr (indexToken c)"
  "obj_get (config_object c) ''routeToken'' = JStr (routeToken c)"
  "obj_get (config_object c) ''pathParamsAllowedCharacters'' = opt_json strings_json (pathParamsAllowedCharacters c)"
  "obj_get (config_object c) ''customScaffolding'' = JObj (customScaffolding_object (customScaffolding c))"
  "obj_get (config_object c) ''experimental'' = opt_json (\<lambda>x. JObj (experimental_object x)) (experimental c)"
  by (simp_all add: config_object_def obj_get_def)

lemma parse_plain_value:
  assumes "configSchema_parse vs ob = Inr c" and "k \<in> set plain_keys"
  shows "obj_get (config_object c) k =
           (if obj_get ob k = JUndefined then obj_get (config_object default_config) k
            else obj_get ob k)"
proof -
  have r: "reads_fields vs ob c" using assms(1) by (rule parse_reads_fields)
  have s:
    "s_routeFilePrefix (obj_get ob ''routeFilePrefix'') = Some (routeFilePrefix c)"
    "s_routeFileIgnorePrefix (obj_get ob ''routeFileIgnorePrefix'') = Some (routeFileIgnorePrefix c)"
    "s_routeFileIgnorePattern (obj_get ob ''routeFileIgnorePattern'') = Some (routeFileIgnorePattern c)"
    "s_routesDirectory (obj_get ob ''routesDirectory'') = Some (routesDirectory c)"
    "s_generatedRouteTree (obj_get ob ''generatedRouteTree'') = Some (generatedRouteTree c)"
    "s_quoteStyle (obj_get ob ''quoteStyle'') = Some (quoteStyle c)"
    "s_semicolons (obj_get ob ''semicolons'') = Some (semicolons c)"
    "s_disableTypes (obj_get ob ''disableTypes'') = Some (disableTypes c)"
    "s_addExtensions (obj_get ob ''addExtensions'') = Some (addExtensions c)"
    "s_disableLogging (obj_get ob ''disableLogging'') = Some (disableLogging c)"
    "s_disableManifestGeneration (obj_get ob ''disableManifestGeneration'') = Some (disableManifestGeneration c)"
    "s_apiBase (obj_get ob ''apiBase'') = Some (apiBase c)"
    "s_routeTreeFileHeader (obj_get ob ''routeTreeFileHeader'') = Some (routeTreeFileHeader c)"
    "s_routeTreeFileFooter (obj_get ob ''routeTreeFileFooter'') = Some (routeTreeFileFooter c)"
    "s_autoCodeSplitting (obj_get ob ''autoCodeSplitting'') = Some (autoCodeSplitting c)"
    "s_indexToken (obj_get ob ''indexToken'') = Some (indexToken c)"
    "s_routeToken (obj_get ob ''routeToken'') = Some (routeToken c)"
    "s_pathParamsAllowedCharacters (obj_get ob ''pathParamsAllowedCharacters'') = Some (pathParamsAllowedCharacters c)"
    using r by (simp_all add: reads_fields_def)
  have v_routeFilePrefix: "obj_get (config_object c) ''routeFilePrefix'' =
      (if obj_get ob ''routeFilePrefix'' = JUndefined then obj_get (config_object default_config) ''routeFilePrefix''
       else obj_get ob ''routeFilePrefix'')"
    using z_optional_inv [where enc = JStr, OF z_string_inv s(1) [unfolded s_routeFilePrefix_def]]
    by (simp add: config_object_get) (simp add: default_config_def strings_json_def opt_json_def)
  have v_routeFileIgnorePrefix: "obj_get (config_object c) ''routeFileIgnorePrefix'' =
      (if obj_get ob ''routeFileIgnorePrefix'' = JUndefined then obj_get (config_object default_config) ''routeFileIgnorePrefix''
       else obj_get ob ''routeFileIgnorePrefix'')"
    using z_default_inv [where enc = JStr, OF z_string_inv s(2) [unfolded s_routeFileIgnorePrefix_def]]
    by (simp add: config_object_get) (simp add: default_config_def strings_json_def opt_json_def)
  have v_routeFileIgnorePattern: "obj_get (config_object c) ''routeFileIgnorePattern'' =
      (if obj_get ob ''routeFileIgnorePattern'' = JUndefined then obj_get (config_object default_config) ''routeFileIgnorePattern''
       else obj_get ob ''routeFileIgnorePattern'')"
    using z_optional_inv [where enc = JStr, OF z_string_inv s(3) [unfolded s_routeFileIgnorePattern_def]]
    by (simp add: config_object_get) (simp add: default_config_def strings_json_def opt_json_def)
  have v_routesDirectory: "obj_get (config_object c) ''routesDirectory'' =
      (if obj_get ob ''routesDirectory'' = JUndefined then obj_get (config_object default_config) ''routesDirectory''
       else obj_get ob ''routesDirectory'')"
    using z_default_inv [where enc = JStr, OF z_string_inv s(4) [unfolded s_routesDirectory_def]]
    by (simp add: config_object_get) (simp add: default_config_def strings_json_def opt_json_def)
  have v_generatedRouteTree: "obj_get (config_object c) ''generatedRouteTree'' =
      (if obj_get ob ''generatedRouteTree'' = JUndefined then obj_get (config_object default_config) ''generatedRouteTree''
       else obj_get ob ''generatedRouteTree'')"
    using z_default_inv [where enc = JStr, OF z_string_inv s(5) [unfolded s_generatedRouteTree_def]]
    by (simp add: config_object_get) (simp add: default_config_def strings_json_def opt_json_def)
  have v_quoteStyle: "obj_get (config_object c) ''quoteStyle'' =
      (if obj_get ob ''quoteStyle'' = JUndefined then obj_get (config_object default_config) ''quoteStyle''
       else obj_get ob ''quoteStyle'')"
    using z_default_inv [where enc = JStr, OF z_enum_inv s(6) [unfolded s_quoteStyle_def]]
    by (simp add: config_object_get) (simp add: default_config_def strings_json_def opt_json_def)
  have v_semicolons: "obj_get (config_object c) ''semicolons'' =
      (if obj_get ob ''semicolons'' = JUndefined then obj_get (config_object default_config) ''semicolons''
       else obj_get ob ''semicolons'')"
    using z_default_inv [where enc = JBool, OF z_boolean_inv s(7) [unfolded s_semicolons_def]]
    by (simp add: config_object_get) (simp add: default_config_def strings_json_def opt_json_def)
  have v_disableTypes: "obj_get (config_object c) ''disableTypes'' =
      (if obj_get ob ''disableTypes'' = JUndefined then obj_get (config_object default_config) ''disableTypes''
       else obj_get ob ''disableTypes'')"
    using z_default_inv [where enc = JBool, OF z_boolean_inv s(8) [unfolded s_disableTypes_def]]
    by (simp add: config_object_get) (simp add: default_config_def strings_json_def opt_json_def)
  have v_addExtensions: "obj_get (config_object c) ''addExtensions'' =
      (if obj_get ob ''addExtensions'' = JUndefined then obj_get (config_object default_config) ''addExtensions''
       else obj_get ob ''addExtensions'')"
    using z_default_inv [where enc = JBool, OF z_boolean_inv s(9) [unfolded s_addExtensions_def]]
    by (simp add: config_object_get) (simp add: default_config_def strings_json_def opt_json_def)
  have v_disableLogging: "obj_get (config_object c) ''disableLogging'' =
      (if obj_get ob ''disableLogging'' = JUndefined then obj_get (config_object default_config) ''disableLogging''
       else obj_get ob ''disableLogging'')"
    using z_default_inv [where enc = JBool, OF z_boolean_inv s(10) [unfolded s_disableLogging_def]]
    by (simp add: config_object_get) (simp add: default_config_def strings_json_def opt_json_def)
  have v_disableManifestGeneration: "obj_get (config_object c) ''disableManifestGeneration'' =
      (if obj_get ob ''disableManifestGeneration'' = JUndefined then obj_get (config_object default_config) ''disableManifestGeneration''
       else obj_get ob ''disableManifestGeneration'')"
    using z_default_inv [where enc = JBool, OF z_boolean_inv s(11) [unfolded s_disableManifestGeneration_def]]
    by (simp add: config_object_get) (simp add: default_config_def strings_json_def opt_json_def)
  have v_apiBase: "obj_get (config_object c) ''apiBase'' =
      (if obj_get ob ''apiBase'' = JUndefined then obj_get (config_object default_config) ''apiBase''
       else obj_get ob ''apiBase'')"
    using z_default_inv [where enc = JStr, OF z_string_inv s(12) [unfolded s_apiBase_def]]
    by (simp add: config_object_get) (simp add: default_config_def strings_json_def opt_json_def)
  have v_routeTreeFileHeader: "obj_get (config_object c) ''routeTreeFileHeader'' =
      (if obj_get ob ''routeTreeFileHeader'' = JUndefined then obj_get (config_object default_config) ''routeTreeFileHeader''
       else obj_get ob ''routeTreeFileHeader'')"
    using z_default_inv [where enc = strings_json, OF z_array_string_inv s(13) [unfolded s_routeTreeFileHeader_def]]
    by (simp add: config_object_get) (simp add: default_config_def strings_json_def opt_json_def)
  have v_routeTreeFileFooter: "obj_get (config_object c) ''routeTreeFileFooter'' =
      (if obj_get ob ''routeTreeFileFooter'' = JUndefined then obj_get (config_object default_config) ''routeTreeFileFooter''
       else obj_get ob ''routeTreeFileFooter'')"
    using z_default_inv [where enc = strings_json, OF z_array_string_inv s(14) [unfolded s_routeTreeFileFooter_def]]
    by (simp add: config_object_get) (simp add: default_config_def strings_json_def opt_json_def)
  have v_autoCodeSplitting: "obj_get (config_object c) ''autoCodeSplitting'' =
      (if obj_get ob ''autoCodeSplitting'' = JUndefined then obj_get (config_object default_config) ''autoCodeSplitting''
       else obj_get ob ''autoCodeSplitting'')"
    using z_optional_inv [where enc = JBool, OF z_boolean_inv s(15) [unfolded s_autoCodeSplitting_def]]
    by (simp add: config_object_get) (simp add: default_config_def strings_json_def opt_json_def)
  have v_indexToken: "obj_get (config_object c) ''indexToken'' =
      (if obj_get ob ''indexToken'' = JUndefined then obj_get (config_object default_config) ''indexToken''
       else obj_get ob ''indexToken'')"
    using z_default_inv [where enc = JStr, OF z_string_inv s(16) [unfolded s_indexToken_def]]
    by (simp add: config_object_get) (simp add: default_config_def strings_json_def opt_json_def)
  have v_routeToken: "obj_get (config_object c) ''routeToken'' =
      (if obj_get ob ''routeToken'' = JUndefined then obj_get (config_object default_config) ''routeToken''
       else obj_get ob ''routeToken'')"
    using z_default_inv [where enc = JStr, OF z_string_inv s(17) [unfolded s_routeToken_def]]
    by (simp add: config_object_get) (simp add: default_config_def strings_json_def opt_json_def)
  have v_pathParamsAllowedCharacters: "obj_get (config_object c) ''pathParamsAllowedCharacters'' =
      (if obj_get ob ''pathParamsAllowedCharacters'' = JUndefined then obj_get (config_object default_config) ''pathParamsAllowedCharacters''
       else obj_get ob ''pathParamsAllowedCharacters'')"
    using z_optional_inv [where enc = strings_json, OF z_array_enum_inv s(18) [unfolded s_pathParamsAllowedCharacters_def]]
    by (simp add: config_object_get) (simp add: default_config_def strings_json_def opt_json_def)
  from assms(2) have "(k = ''routeFilePrefix'' \<or> k = ''routeFileIgnorePrefix'' \<or> k = ''routeFileIgnorePattern'' \<or> k = ''routesDirectory'' \<or> k = ''generatedRouteTree'' \<or> k = ''quoteStyle'' \<or> k = ''semicolons'' \<or> k = ''disableTypes'' \<or> k = ''addExtensions'' \<or> k = ''disableLogging'' \<or> k = ''disableManifestGeneration'' \<or> k = ''apiBase'' \<or> k = ''routeTreeFileHeader'' \<or> k = ''routeTreeFileFooter'' \<or> k = ''autoCodeSplitting'' \<or> k = ''indexToken'' \<or> k = ''routeToken'' \<or> k = ''pathParamsAllowedCharacters'')"
    by (simp add: plain_keys_def)
  then show ?thesis
    by (elim disjE) (simp_all only: v_routeFilePrefix v_routeFileIgnorePrefix v_routeFileIgnorePattern v_routesDirectory v_generatedRouteTree v_quoteStyle v_semicolons v_disableTypes v_addExtensions v_disableLogging v_disableManifestGeneration v_apiBase v_routeTreeFileHeader v_routeTreeFileFooter v_autoCodeSplitting v_indexToken v_routeToken v_pathParamsAllowedCharacters)
qed

lemma parse_structured_entries:
  assumes "configSchema_parse vs ob = Inr c"
  shows "structured_entries vs ob c"
proof -
  have r: "reads_fields vs ob c" using assms by (rule parse_reads_fields)
  have s:
    "s_virtualRouteConfig vs (obj_get ob ''virtualRouteConfig'') = Some (virtualRouteConfig c)"
    "s_customScaffolding (obj_get ob ''customScaffolding'') = Some (customScaffolding c)"
    "s_experimental (obj_get ob ''experimental'') = Some (experimental c)"
    using r by (simp_all add: reads_fields_def)
  let ?v = "obj_get ob ''virtualRouteConfig''"
  have v: "virtualRouteConfig c =
        (if ?v = JUndefined then None
         else (case vs ?v of Some v \<Rightarrow> Some v | None \<Rightarrow> Some ?v))
      \<and> (?v \<noteq> JUndefined \<and> vs ?v = None \<longrightarrow> (\<exists>s. ?v = JStr s))"
  proof (cases "?v = JUndefined")
    case True
    with s(1) show ?thesis by (simp add: s_virtualRouteConfig_def z_optional_def)
  next
    case False
    with s(1) have "map_option Some (z_or vs (\<lambda>j. map_option JStr (z_string j)) ?v) =
        Some (virtualRouteConfig c)"
      by (simp add: s_virtualRouteConfig_def z_optional_def)
    then obtain y where o: "z_or vs (\<lambda>j. map_option JStr (z_string j)) ?v = Some y"
      and "Some y = virtualRouteConfig c"
      by auto
    then have y: "virtualRouteConfig c = Some y" by simp
    show ?thesis
    proof (cases "vs ?v")
      case None
      with o obtain t where "z_string ?v = Some t" and "y = JStr t"
        by (auto simp: z_or_def)
      then have "y = ?v" and "?v = JStr t" using z_string_inv [of ?v t] by simp_all
      with None False y show ?thesis by simp
    next
      case (Some w)
      with o have "y = w" by (simp add: z_or_def)
      with Some False y show ?thesis by simp
    qed
  qed
  let ?cs = "obj_get ob ''customScaffolding''"
  have cu: "customScaffolding c = customScaffolding default_config" if "?cs = JUndefined"
    using field_equal_default [OF r that] by (simp add: field_equal_def)
  have cd: "\<exists>entries. ?cs = JObj entries \<and>
                 (\<forall>k \<in> {''routeTemplate'', ''apiTemplate''}.
                    obj_get (customScaffolding_object (customScaffolding c)) k =
                      (if obj_get entries k = JUndefined
                       then obj_get (customScaffolding_object (customScaffolding default_config)) k
                       else obj_get entries k))"
    if ne: "?cs \<noteq> JUndefined"
  proof -
    from s(2) ne have cs: "customScaffolding_schema ?cs = Some (customScaffolding c)"
      by (auto simp: s_customScaffolding_def z_default_def z_optional_def split: option.splits)
    then obtain entries where e: "?cs = JObj entries"
      by (cases ?cs) (simp_all add: customScaffolding_schema_def)
    from cs e obtain r a
      where r: "z_default (JStr defaultTemplate_routeTemplate) (z_optional z_string)
             (obj_get entries ''routeTemplate'') = Some r"
        and a: "z_default (JStr defaultTemplate_apiTemplate) (z_optional z_string)
             (obj_get entries ''apiTemplate'') = Some a"
        and ra: "\<lparr>routeTemplate = r, apiTemplate = a\<rparr> = customScaffolding c"
      by (auto simp: customScaffolding_schema_def split: option.splits)
    from ra [symmetric] have sel: "routeTemplate (customScaffolding c) = r"
      "apiTemplate (customScaffolding c) = a"
      by simp_all
    have rt: "z_default (JStr defaultTemplate_routeTemplate) (z_optional z_string)
             (obj_get entries ''routeTemplate'') = Some (routeTemplate (customScaffolding c))"
      and at: "z_default (JStr defaultTemplate_apiTemplate) (z_optional z_string)
             (obj_get entries ''apiTemplate'') = Some (apiTemplate (customScaffolding c))"
      using r a by (simp_all add: sel)
    from z_default_inv [where enc = JStr, OF z_string_inv rt] z_default_inv [where enc = JStr, OF z_string_inv at] e
    show ?thesis
      by (simp add: customScaffolding_object_def obj_get_def default_config_def)
  qed
  let ?ex = "obj_get ob ''experimental''"
  have eu: "experimental c = None" if "?ex = JUndefined"
    using s(3) that by (simp add: s_experimental_def z_optional_def)
  have ed: "\<exists>entries x. ?ex = JObj entries \<and> experimental c = Some x \<and>
                 obj_get (experimental_object x) ''enableCodeSplitting'' =
                   obj_get entries ''enableCodeSplitting''"
    if ne: "?ex \<noteq> JUndefined"
  proof -
    from s(3) ne have "map_option Some (experimental_schema ?ex) = Some (experimental c)"
      by (simp add: s_experimental_def z_optional_def)
    then obtain x where es: "experimental_schema ?ex = Some x"
      and "Some x = experimental c"
      by auto
    then have x: "experimental c = Some x" by simp
    from es obtain entries where e: "?ex = JObj entries"
      by (cases ?ex) (simp_all add: experimental_schema_def)
    from es e obtain b where b: "z_optional z_boolean (obj_get entries ''enableCodeSplitting'') = Some b"
      and xb: "\<lparr>enableCodeSplitting = b\<rparr> = x"
      by (auto simp: experimental_schema_def split: option.splits)
    from xb [symmetric] have "enableCodeSplitting x = b" by simp
    with b have "z_optional z_boolean (obj_get entries ''enableCodeSplitting'') =
             Some (enableCodeSplitting x)"
      by simp
    from z_optional_inv [where enc = JBool, OF z_boolean_inv this] e x show ?thesis
      by (simp add: experimental_object_def obj_get_def)
  qed
  show ?thesis
    unfolding structured_entries_def using v cu cd eu ed by simp
qed

lemma normalized_object:
  assumes "k \<noteq> ''routesDirectory''" and "k \<noteq> ''generatedRouteTree''"
  shows "obj_get (config_object (resolve_paths e d (rewrite_extension c))) k =
         obj_get (config_object c) k"
  using assms
  by (simp add: resolve_paths_def rewrite_extension_def config_object_def obj_get_def)

lemma normalized_structured:
  "structured_entries vs ob (resolve_paths e d (rewrite_extension c)) =
   structured_entries vs ob c"
  by (simp add: structured_entries_def resolve_paths_def rewrite_extension_def)

lemma three_way:
  "(if obj_get (a @ b) k = JUndefined then dflt else obj_get (a @ b) k) =
     (if has_key b k \<and> obj_get b k \<noteq> JUndefined then obj_get b k
      else if \<not> has_key b k \<and> obj_get a k \<noteq> JUndefined then obj_get a k
      else dflt)"
  by (simp add: obj_get_append)



section \<open>The path resolver\<close>

text \<open>
  Claim C2. In a process whose working directory is absolute (or for an absolute
  directory), \<^verbatim>\<open>resolveConfigPath\<close> returns the path of \<^verbatim>\<open>tsr.config.json\<close> in the
  directory when that path exists, whether or not \<^verbatim>\<open>tsr.config.js\<close> exists as well,
  otherwise the path of \<^verbatim>\<open>tsr.config.js\<close> when that exists, otherwise nothing. Both
  candidate paths are absolute and end in the file's name, and where both exist the
  result is the path of the JSON file and not that of the script.
\<close>

theorem resolveConfigPath_prefers_json:
  assumes "isAbsolute (cwd e) \<or> isAbsolute d"
  shows "resolveConfigPath e d =
           (if existsSync e (jsonConfigPath e d) then Some (jsonConfigPath e d)
            else if existsSync e (jsConfigPath e d) then Some (jsConfigPath e d)
            else None)
         \<and> isAbsolute (jsonConfigPath e d)
         \<and> last_component (jsonConfigPath e d) = ''tsr.config.json''
         \<and> isAbsolute (jsConfigPath e d)
         \<and> last_component (jsConfigPath e d) = ''tsr.config.js''
         \<and> (existsSync e (jsonConfigPath e d) \<and> existsSync e (jsConfigPath e d) \<longrightarrow>
              resolveConfigPath e d = Some (jsonConfigPath e d) \<and>
              resolveConfigPath e d \<noteq> Some (jsConfigPath e d))"
  using configPaths_absolute [OF assms] configPaths_differ [of e d]
  by (simp add: resolveConfigPath_cases jsonConfigPath_component jsConfigPath_component)

theorem resolveConfigPath_prefers_json_witness:
  "isAbsolute (cwd env_files)
   \<and> existsSync env_files ''/proj/tsr.config.json''
   \<and> existsSync env_files ''/proj/tsr.config.js''
   \<and> resolveConfigPath env_files ''/proj'' = Some ''/proj/tsr.config.json''
   \<and> resolveConfigPath env_files ''/proj'' \<noteq> Some ''/proj/tsr.config.js''
   \<and> resolveConfigPath env_files ''/mod'' = Some ''/mod/tsr.config.js''
   \<and> resolveConfigPath env_files ''/work'' = None"
proof -
  have a: "isAbsolute (cwd env_files) \<or> isAbsolute ''/proj''"
    by (simp add: env_files_def isAbsolute_def)
  have p: "jsonConfigPath env_files ''/mod'' = ''/mod/tsr.config.json''"
    "jsConfigPath env_files ''/mod'' = ''/mod/tsr.config.js''"
    "jsonConfigPath env_files ''/work'' = ''/work/tsr.config.json''"
    "jsConfigPath env_files ''/work'' = ''/work/tsr.config.js''"
    by (simp_all add: jsonConfigPath_def jsConfigPath_def env_files_def
      path_resolve_def normalizeString_def normalize_step_def isAbsolute_def)
  have x: "existsSync env_files ''/proj/tsr.config.json''" "existsSync env_files ''/proj/tsr.config.js''"
    "\<not> existsSync env_files ''/mod/tsr.config.json''" "existsSync env_files ''/mod/tsr.config.js''"
    "\<not> existsSync env_files ''/work/tsr.config.json''" "\<not> existsSync env_files ''/work/tsr.config.js''"
    by (simp_all add: env_files_def)
  show ?thesis
    using resolveConfigPath_prefers_json [OF a] x
    by (simp add: concrete_paths p resolveConfigPath_cases) (simp add: env_files_def isAbsolute_def)
qed


section \<open>The validator\<close>

text \<open>
  Claim C6. When the configuration that \<^verbatim>\<open>getConfig\<close> has merged and parsed carries a
  defined \<^verbatim>\<open>experimental.enableCodeSplitting\<close>, \<^verbatim>\<open>true\<close> or \<^verbatim>\<open>false\<close> alike, the call fails
  with the deprecated-flag error. The check comes before every other check of the
  validator: any configuration with that \<^verbatim>\<open>experimental\<close> value is rejected with this
  error, whatever its tokens and its ignore prefix are.
\<close>

theorem deprecated_flag_rejected_first:
  assumes "load_config vs e inl (resolveConfigPath e (effective_directory e a)) = Inr config"
    and "experimental config = Some x"
    and "enableCodeSplitting x = Some b"
  shows "getConfig vs e inl a = Inl DeprecatedFlag
         \<and> (\<forall>c'. experimental c' = experimental config \<longrightarrow>
               validateConfig c' = Inl DeprecatedFlag)"
proof -
  have v: "validateConfig c' = Inl DeprecatedFlag" if "experimental c' = experimental config" for c'
    using that assms(2,3) by (simp add: validateConfig_def)
  then have "validateConfig config = Inl DeprecatedFlag" by simp
  with assms(1) have "getConfig vs e inl a = Inl DeprecatedFlag"
    by (simp add: getConfig_loaded)
  with v show ?thesis by blast
qed

theorem deprecated_flag_rejected_first_witness:
  "load_config no_virtual env_no_files
      [(''experimental'', JObj [(''enableCodeSplitting'', JBool False)]),
       (''indexToken'', JStr ''x''), (''routeToken'', JStr ''x'')]
      (resolveConfigPath env_no_files (effective_directory env_no_files None)) =
     Inr (default_config
           \<lparr>indexToken := ''x'', routeToken := ''x'',
            experimental := Some \<lparr>enableCodeSplitting = Some False\<rparr>\<rparr>)
   \<and> getConfig no_virtual env_no_files
      [(''experimental'', JObj [(''enableCodeSplitting'', JBool False)]),
       (''indexToken'', JStr ''x''), (''routeToken'', JStr ''x'')] None = Inl DeprecatedFlag"
proof -
  let ?inl = "[(''experimental'', JObj [(''enableCodeSplitting'', JBool False)]),
       (''indexToken'', JStr ''x''), (''routeToken'', JStr ''x'')]"
  let ?c = "default_config
           \<lparr>indexToken := ''x'', routeToken := ''x'',
            experimental := Some \<lparr>enableCodeSplitting = Some False\<rparr>\<rparr>"
  have l: "load_config no_virtual env_no_files ?inl
             (resolveConfigPath env_no_files (effective_directory env_no_files None)) = Inr ?c"
    by (simp add: no_files_resolve load_config_none) (simp add: parse_eval default_config_def)
  have x: "experimental ?c = Some \<lparr>enableCodeSplitting = Some False\<rparr>" by simp
  have b: "enableCodeSplitting \<lparr>enableCodeSplitting = Some False\<rparr> = Some False" by simp
  from deprecated_flag_rejected_first [OF l x b] l show ?thesis by blast
qed

text \<open>
  Claim C8, as stated, fails: a configuration whose ignore prefix is \<^verbatim>\<open>_\<close> and whose two
  tokens are equal is rejected with the token-collision error, not with the
  reserved-prefix error, since the validator reports its first failing check only.
\<close>

theorem reserved_prefix_counterexample:
  "trim ''_'' = ''_''
   \<and> load_config no_virtual env_no_files
      [(''routeFileIgnorePrefix'', JStr ''_''), (''indexToken'', JStr ''x''),
       (''routeToken'', JStr ''x'')]
      (resolveConfigPath env_no_files (effective_directory env_no_files None)) =
     Inr (default_config
           \<lparr>routeFileIgnorePrefix := ''_'', indexToken := ''x'', routeToken := ''x''\<rparr>)
   \<and> getConfig no_virtual env_no_files
      [(''routeFileIgnorePrefix'', JStr ''_''), (''indexToken'', JStr ''x''),
       (''routeToken'', JStr ''x'')] None = Inl TokenCollision
   \<and> getConfig no_virtual env_no_files
      [(''routeFileIgnorePrefix'', JStr ''_''), (''indexToken'', JStr ''x''),
       (''routeToken'', JStr ''x'')] None \<noteq> Inl ReservedPrefix"
proof -
  let ?inl = "[(''routeFileIgnorePrefix'', JStr ''_''), (''indexToken'', JStr ''x''),
       (''routeToken'', JStr ''x'')]"
  let ?c = "default_config
           \<lparr>routeFileIgnorePrefix := ''_'', indexToken := ''x'', routeToken := ''x''\<rparr>"
  have t: "trim ''_'' = ''_''" by (simp add: trim_def is_js_space_def)
  have l: "load_config no_virtual env_no_files ?inl
             (resolveConfigPath env_no_files (effective_directory env_no_files None)) = Inr ?c"
    by (simp add: no_files_resolve load_config_none) (simp add: parse_eval default_config_def)
  have v: "validateConfig ?c = Inl TokenCollision"
    by (simp add: validateConfig_def default_config_def)
  have g: "getConfig no_virtual env_no_files ?inl None = Inl TokenCollision"
    by (simp add: getConfig_loaded [OF l] v)
  from t l g show ?thesis by simp
qed

text \<open>
  Claim C8, amended. When the merged and parsed configuration has a
  \<^verbatim>\<open>routeFileIgnorePrefix\<close> that trims to \<^verbatim>\<open>_\<close>, \<^verbatim>\<open>getConfig\<close> fails: with the
  deprecated-flag error when \<^verbatim>\<open>experimental.enableCodeSplitting\<close> is defined, else with
  the token-collision error when the two tokens are equal, else with the reserved-prefix
  error. Hence no configuration that \<^verbatim>\<open>getConfig\<close> returns has an ignore prefix that
  trims to \<^verbatim>\<open>_\<close>.
\<close>

theorem reserved_prefix_rejected:
  "(load_config vs e inl (resolveConfigPath e (effective_directory e a)) = Inr config \<and>
    trim (routeFileIgnorePrefix config) = ''_'' \<longrightarrow>
      getConfig vs e inl a =
        (if (case experimental config of None \<Rightarrow> None | Some x \<Rightarrow> enableCodeSplitting x) \<noteq> None
         then Inl DeprecatedFlag
         else if indexToken config = routeToken config then Inl TokenCollision
         else Inl ReservedPrefix))
   \<and> (getConfig vs e inl a = Inr c \<longrightarrow> trim (routeFileIgnorePrefix c) \<noteq> ''_'')"
proof (intro conjI impI)
  assume h: "load_config vs e inl (resolveConfigPath e (effective_directory e a)) = Inr config \<and>
    trim (routeFileIgnorePrefix config) = ''_''"
  then have ne: "routeFileIgnorePrefix config \<noteq> []"
    using trim_empty by auto
  with h have "validateConfig config =
        (if (case experimental config of None \<Rightarrow> None | Some x \<Rightarrow> enableCodeSplitting x) \<noteq> None
         then Inl DeprecatedFlag
         else if indexToken config = routeToken config then Inl TokenCollision
         else Inl ReservedPrefix)"
    by (simp add: validateConfig_def)
  with h show "getConfig vs e inl a =
        (if (case experimental config of None \<Rightarrow> None | Some x \<Rightarrow> enableCodeSplitting x) \<noteq> None
         then Inl DeprecatedFlag
         else if indexToken config = routeToken config then Inl TokenCollision
         else Inl ReservedPrefix)"
    by (simp add: getConfig_loaded)
next
  assume "getConfig vs e inl a = Inr c"
  then obtain c0 where v: "validateConfig c0 = Inr c0"
    and c: "c = resolve_paths e (effective_directory e a) (rewrite_extension c0)"
    by (auto simp: getConfig_Inr)
  from v have "routeFileIgnorePrefix c0 = [] \<or> trim (routeFileIgnorePrefix c0) \<noteq> ''_''"
    by (simp add: validateConfig_def split: if_splits)
  then have "trim (routeFileIgnorePrefix c0) \<noteq> ''_''"
    using trim_empty by auto
  then show "trim (routeFileIgnorePrefix c) \<noteq> ''_''"
    by (simp add: c normalized_fields)
qed

theorem reserved_prefix_rejected_witness:
  "load_config no_virtual env_no_files [(''routeFileIgnorePrefix'', JStr '' _ '')]
      (resolveConfigPath env_no_files (effective_directory env_no_files None)) =
     Inr (default_config\<lparr>routeFileIgnorePrefix := '' _ ''\<rparr>)
   \<and> trim '' _ '' = ''_''
   \<and> getConfig no_virtual env_no_files [(''routeFileIgnorePrefix'', JStr '' _ '')] None =
       Inl ReservedPrefix
   \<and> getConfig no_virtual env_no_files [] None =
       Inr (default_config
             \<lparr>routesDirectory := ''/work/src/routes'',
              generatedRouteTree := ''/work/src/routeTree.gen.ts''\<rparr>)
   \<and> trim ''-'' \<noteq> ''_''"
proof -
  let ?inl = "[(''routeFileIgnorePrefix'', JStr '' _ '')]"
  let ?c = "default_config\<lparr>routeFileIgnorePrefix := '' _ ''\<rparr>"
  let ?r = "default_config
             \<lparr>routesDirectory := ''/work/src/routes'',
              generatedRouteTree := ''/work/src/routeTree.gen.ts''\<rparr>"
  have t: "trim '' _ '' = ''_''" by (simp add: trim_def is_js_space_def)
  have l: "load_config no_virtual env_no_files ?inl
             (resolveConfigPath env_no_files (effective_directory env_no_files None)) = Inr ?c"
    by (simp add: no_files_resolve load_config_none) (simp add: parse_eval default_config_def)
  have f: "routeFileIgnorePrefix ?c = '' _ ''"
    "(case experimental ?c of None \<Rightarrow> None | Some x \<Rightarrow> enableCodeSplitting x) = None"
    "indexToken ?c \<noteq> routeToken ?c"
    by (simp_all add: default_config_def)
  have g0: "getConfig no_virtual env_no_files [] None = Inr ?r"
    by (simp add: getConfig_cases no_files_resolve load_config_none parse_empty)
       (simp add: effective_directory_def env_no_files_def default_config_def finish_eval path_eval)
  have p: "routeFileIgnorePrefix ?r = ''-''" by (simp add: default_config_def)
  from reserved_prefix_rejected [of no_virtual env_no_files ?inl None ?c]
  have 1: "getConfig no_virtual env_no_files ?inl None = Inl ReservedPrefix"
    using l t f by simp
  from reserved_prefix_rejected [of no_virtual env_no_files "[]" None _ ?r] g0 p
  have 2: "trim ''-'' \<noteq> ''_''" by simp
  from l t 1 g0 2 show ?thesis by blast
qed


section \<open>The extension of the generated route tree\<close>

text \<open>
  Claim C3. With \<^verbatim>\<open>disableTypes\<close> true the returned \<^verbatim>\<open>generatedRouteTree\<close> is to end in
  no typed extension, whatever value was declared; the comment in \<^verbatim>\<open>getConfig\<close> says as
  much (``make sure the generated route tree is a .js file''). The code misses a case:
  the pattern is applied to the declared string, before the path is resolved, and
  resolution then removes a trailing slash. With types disabled and
  \<^verbatim>\<open>generatedRouteTree: "./routeTree.gen.ts/"\<close> the pattern finds nothing to replace, and
  the path returned for the directory \<^verbatim>\<open>/proj\<close> is \<^verbatim>\<open>/proj/routeTree.gen.ts\<close>.
\<close>

theorem typed_extension_kept_after_slash:
  "getConfig no_virtual env_no_files
     [(''disableTypes'', JBool True), (''generatedRouteTree'', JStr ''./routeTree.gen.ts/'')]
     (Some ''/proj'') =
     Inr (default_config
           \<lparr>routesDirectory := ''/proj/src/routes'',
            generatedRouteTree := ''/proj/routeTree.gen.ts'',
            disableTypes := True\<rparr>)
   \<and> ends_with ''.ts'' ''/proj/routeTree.gen.ts''"
proof -
  have p: "configSchema_parse no_virtual
     [(''disableTypes'', JBool True), (''generatedRouteTree'', JStr ''./routeTree.gen.ts/'')] =
     Inr (default_config\<lparr>generatedRouteTree := ''./routeTree.gen.ts/'', disableTypes := True\<rparr>)"
    by (simp add: parse_eval default_config_def)
  have "getConfig no_virtual env_no_files
     [(''disableTypes'', JBool True), (''generatedRouteTree'', JStr ''./routeTree.gen.ts/'')]
     (Some ''/proj'') =
     Inr (default_config
           \<lparr>routesDirectory := ''/proj/src/routes'',
            generatedRouteTree := ''/proj/routeTree.gen.ts'',
            disableTypes := True\<rparr>)"
    by (simp add: getConfig_cases no_files_resolve load_config_none p)
       (simp add: effective_directory_def env_no_files_def default_config_def finish_eval path_eval)
  then show ?thesis by (simp add: ends_with_def)
qed

text \<open>
  What the code does achieve: for every configuration that \<^verbatim>\<open>getConfig\<close> returns with
  \<^verbatim>\<open>disableTypes\<close> true, the merged \<^verbatim>\<open>generatedRouteTree\<close>, default or supplied, has a
  trailing \<^verbatim>\<open>.ts\<close> or \<^verbatim>\<open>.tsx\<close> replaced by \<^verbatim>\<open>.js\<close> before the path is resolved, so that
  the rewritten declared value never ends in \<^verbatim>\<open>.ts\<close> or \<^verbatim>\<open>.tsx\<close>; and whenever the last
  component of that value is a file name (it is not empty, \<^verbatim>\<open>.\<close> or \<^verbatim>\<open>..\<close>, so the value
  does not end in a slash), the returned path does not end in \<^verbatim>\<open>.ts\<close> or \<^verbatim>\<open>.tsx\<close> either.
\<close>

theorem typed_extension_rewritten:
  assumes "getConfig vs e inl a = Inr c" and "disableTypes c"
  shows "\<exists>c0. load_config vs e inl (resolveConfigPath e (effective_directory e a)) = Inr c0
           \<and> generatedRouteTree (rewrite_extension c0) = replace_ts_ext (generatedRouteTree c0)
           \<and> (ends_with ''.ts'' (generatedRouteTree c0) \<longrightarrow>
                replace_ts_ext (generatedRouteTree c0) =
                  take (length (generatedRouteTree c0) - 3) (generatedRouteTree c0) @ ''.js'')
           \<and> (ends_with ''.tsx'' (generatedRouteTree c0) \<longrightarrow>
                replace_ts_ext (generatedRouteTree c0) =
                  take (length (generatedRouteTree c0) - 4) (generatedRouteTree c0) @ ''.js'')
           \<and> \<not> ends_with ''.ts'' (replace_ts_ext (generatedRouteTree c0))
           \<and> \<not> ends_with ''.tsx'' (replace_ts_ext (generatedRouteTree c0))
           \<and> generatedRouteTree c =
               generatedRouteTree
                 (resolve_paths e (effective_directory e a)
                    (c0\<lparr>generatedRouteTree := replace_ts_ext (generatedRouteTree c0)\<rparr>))
           \<and> (\<forall>dp n. replace_ts_ext (generatedRouteTree c0) = dp @ n \<and> dir_prefix dp \<and>
                 is_file_name n \<longrightarrow>
                   \<not> ends_with ''.ts'' (generatedRouteTree c) \<and>
                   \<not> ends_with ''.tsx'' (generatedRouteTree c))"
proof -
  from assms(1) obtain c0
    where l: "load_config vs e inl (resolveConfigPath e (effective_directory e a)) = Inr c0"
      and c: "c = resolve_paths e (effective_directory e a) (rewrite_extension c0)"
    by (auto simp: getConfig_Inr)
  from assms(2) c have dt: "disableTypes c0" by (simp add: normalized_fields)
  let ?g = "replace_ts_ext (generatedRouteTree c0)"
  have r: "rewrite_extension c0 = c0\<lparr>generatedRouteTree := ?g\<rparr>"
    using dt by (simp add: rewrite_extension_def)
  have g: "generatedRouteTree (rewrite_extension c0) = ?g"
    using dt by (simp add: rewrite_extension_fields)
  have ts: "ends_with ''.ts'' (generatedRouteTree c0) \<longrightarrow>
              ?g = take (length (generatedRouteTree c0) - 3) (generatedRouteTree c0) @ ''.js''"
    by (simp add: replace_ts_ext_def)
  have nts: "\<not> ends_with ''.ts'' s" if "ends_with ''.tsx'' s" for s
    using that ends_with_last [of "''.tsx''" s] ends_with_last [of "''.ts''" s] by auto
  have tsx: "ends_with ''.tsx'' (generatedRouteTree c0) \<longrightarrow>
              ?g = take (length (generatedRouteTree c0) - 4) (generatedRouteTree c0) @ ''.js''"
    using nts by (simp add: replace_ts_ext_def)
  have fin: "\<not> ends_with ''.ts'' (generatedRouteTree c) \<and> \<not> ends_with ''.tsx'' (generatedRouteTree c)"
    if h: "?g = dp @ n \<and> dir_prefix dp \<and> is_file_name n" for dp n
  proof -
    have gc: "generatedRouteTree (rewrite_extension c0) = dp @ n" using g h by simp
    have "ends_with suffix ?g"
      if "CHR ''/'' \<notin> set suffix" "ends_with suffix (generatedRouteTree c)" for suffix
      using resolve_paths_file_name_suffix [of dp n suffix "rewrite_extension c0" e
          "effective_directory e a"] h gc that c by simp
    from this [of "''.ts''"] this [of "''.tsx''"] replace_ts_ext_untyped [of "generatedRouteTree c0"]
    show ?thesis by auto
  qed
  show ?thesis
    using l g ts tsx replace_ts_ext_untyped [of "generatedRouteTree c0"] c r fin
    by (intro exI [of _ c0]) simp
qed

theorem typed_extension_rewritten_witness:
  "getConfig no_virtual env_no_files [(''disableTypes'', JBool True)] (Some ''/proj'') =
     Inr (default_config
           \<lparr>routesDirectory := ''/proj/src/routes'',
            generatedRouteTree := ''/proj/src/routeTree.gen.js'',
            disableTypes := True\<rparr>)
   \<and> \<not> ends_with ''.ts'' ''/proj/src/routeTree.gen.js''
   \<and> \<not> ends_with ''.tsx'' ''/proj/src/routeTree.gen.js''"
proof -
  let ?inl = "[(''disableTypes'', JBool True)]"
  let ?R = "default_config
           \<lparr>routesDirectory := ''/proj/src/routes'',
            generatedRouteTree := ''/proj/src/routeTree.gen.js'',
            disableTypes := True\<rparr>"
  have p: "configSchema_parse no_virtual ?inl = Inr (default_config\<lparr>disableTypes := True\<rparr>)"
    by (simp add: parse_eval default_config_def)
  have l: "load_config no_virtual env_no_files ?inl
             (resolveConfigPath env_no_files (effective_directory env_no_files (Some ''/proj''))) =
           Inr (default_config\<lparr>disableTypes := True\<rparr>)"
    by (simp add: no_files_resolve load_config_none p)
  have g: "getConfig no_virtual env_no_files ?inl (Some ''/proj'') = Inr ?R"
    by (simp add: getConfig_cases no_files_resolve load_config_none p)
       (simp add: effective_directory_def env_no_files_def default_config_def finish_eval path_eval)
  have dt: "disableTypes ?R" by simp
  have gr: "generatedRouteTree ?R = ''/proj/src/routeTree.gen.js''" by simp
  have rw: "replace_ts_ext (generatedRouteTree (default_config\<lparr>disableTypes := True\<rparr>)) =
              ''./src/'' @ ''routeTree.gen.js''"
    by (simp add: default_config_def replace_ts_ext_def ends_with_def)
  have dn: "dir_prefix ''./src/''" "is_file_name ''routeTree.gen.js''"
    by (simp_all add: dir_prefix_def is_file_name_def)
  from typed_extension_rewritten [OF g dt] l rw dn
  have "\<not> ends_with ''.ts'' (generatedRouteTree ?R) \<and> \<not> ends_with ''.tsx'' (generatedRouteTree ?R)"
    by auto
  with g gr show ?thesis by simp
qed


section \<open>Path normalisation\<close>

text \<open>
  Claim C5, as stated, fails for the empty string as the directory: it is a string that
  is not absolute, yet \<^verbatim>\<open>getConfig\<close> tests the directory for truthiness and leaves both
  paths as declared, so neither is absolute.
\<close>

theorem directory_paths_counterexample:
  "getConfig no_virtual env_no_files [] (Some '''') = Inr default_config
   \<and> routesDirectory default_config = ''./src/routes''
   \<and> generatedRouteTree default_config = ''./src/routeTree.gen.ts''
   \<and> \<not> isAbsolute (routesDirectory default_config)
   \<and> \<not> isAbsolute (generatedRouteTree default_config)"
proof -
  have "getConfig no_virtual env_no_files [] (Some '''') = Inr default_config"
    by (simp add: getConfig_cases no_files_resolve load_config_none parse_empty)
       (simp add: effective_directory_def default_config_def finish_eval)
  then show ?thesis by (simp add: default_config_def isAbsolute_def)
qed

text \<open>
  Claim C5, amended. For every call of \<^verbatim>\<open>getConfig\<close> with a non-empty directory that
  returns a configuration: when the directory is absolute, \<^verbatim>\<open>routesDirectory\<close> and
  \<^verbatim>\<open>generatedRouteTree\<close> are the merged values resolved against it (the directory
  \<^verbatim>\<open>/proj\<close> and the default \<^verbatim>\<open>./src/routes\<close> give \<^verbatim>\<open>/proj/src/routes\<close>); when it is
  relative, they are resolved against the working directory joined with it; and in both
  cases, the working directory being absolute, the two resolved paths are absolute.
\<close>

theorem directory_paths_resolved:
  assumes "getConfig vs e inl (Some d) = Inr c"
    and "d \<noteq> []"
    and "isAbsolute (cwd e) \<or> isAbsolute d"
  shows "\<exists>c0. load_config vs e inl (resolveConfigPath e d) = Inr c0
           \<and> routesDirectory c =
               (if isAbsolute d then path_resolve (cwd e) [d, routesDirectory c0]
                else path_resolve (cwd e) [cwd e, d, routesDirectory c0])
           \<and> generatedRouteTree c =
               (if isAbsolute d
                then path_resolve (cwd e) [d, generatedRouteTree (rewrite_extension c0)]
                else path_resolve (cwd e) [cwd e, d, generatedRouteTree (rewrite_extension c0)])
           \<and> isAbsolute (routesDirectory c)
           \<and> isAbsolute (generatedRouteTree c)
           \<and> (d = ''/proj'' \<and> routesDirectory c0 = ''./src/routes'' \<longrightarrow>
                routesDirectory c = ''/proj/src/routes'')"
proof -
  from assms(1) obtain c0
    where l: "load_config vs e inl (resolveConfigPath e d) = Inr c0"
      and c: "c = resolve_paths e d (rewrite_extension c0)"
    by (auto simp: getConfig_Inr effective_directory_def)
  have rd: "routesDirectory c =
               (if isAbsolute d then path_resolve (cwd e) [d, routesDirectory c0]
                else path_resolve (cwd e) [cwd e, d, routesDirectory c0])"
    using assms(2) by (simp add: c resolve_paths_fields rewrite_extension_fields)
  have gt: "generatedRouteTree c =
               (if isAbsolute d
                then path_resolve (cwd e) [d, generatedRouteTree (rewrite_extension c0)]
                else path_resolve (cwd e) [cwd e, d, generatedRouteTree (rewrite_extension c0)])"
    using assms(2) by (simp add: c resolve_paths_fields)
  have ab: "isAbsolute (path_resolve (cwd e) [d, x])" if "isAbsolute d" for x
    using that by (intro path_resolve_absolute) simp
  have ab': "isAbsolute (path_resolve (cwd e) [cwd e, d, x])" if "\<not> isAbsolute d" for x
    using that assms(3) by (intro path_resolve_absolute) simp
  have ex: "path_resolve (cwd e) [''/proj'', ''./src/routes''] = ''/proj/src/routes''"
    by (simp add: path_eval)
  have "isAbsolute (routesDirectory c)" "isAbsolute (generatedRouteTree c)"
    using ab ab' by (simp_all add: rd gt)
  moreover have "d = ''/proj'' \<and> routesDirectory c0 = ''./src/routes'' \<longrightarrow>
                routesDirectory c = ''/proj/src/routes''"
    using ex by (auto simp: rd isAbsolute_def)
  ultimately show ?thesis using l rd gt by blast
qed

theorem directory_paths_resolved_witness:
  "getConfig no_virtual env_no_files [] (Some ''/proj'') =
     Inr (default_config
           \<lparr>routesDirectory := ''/proj/src/routes'',
            generatedRouteTree := ''/proj/src/routeTree.gen.ts''\<rparr>)
   \<and> getConfig no_virtual env_files [] (Some ''../mod'') =
     Inr (default_config
           \<lparr>routesDirectory := ''/mod/configured-routes-path'',
            generatedRouteTree := ''/mod/src/routeTree.gen.ts'',
            disableLogging := True\<rparr>)
   \<and> isAbsolute ''/proj/src/routes'' \<and> isAbsolute ''/proj/src/routeTree.gen.ts''
   \<and> isAbsolute ''/mod/configured-routes-path'' \<and> isAbsolute ''/mod/src/routeTree.gen.ts''"
proof -
  let ?R = "default_config
           \<lparr>routesDirectory := ''/proj/src/routes'',
            generatedRouteTree := ''/proj/src/routeTree.gen.ts''\<rparr>"
  let ?M = "default_config
           \<lparr>routesDirectory := ''/mod/configured-routes-path'',
            generatedRouteTree := ''/mod/src/routeTree.gen.ts'',
            disableLogging := True\<rparr>"
  have g: "getConfig no_virtual env_no_files [] (Some ''/proj'') = Inr ?R"
    by (simp add: getConfig_cases no_files_resolve load_config_none parse_empty)
       (simp add: effective_directory_def env_no_files_def default_config_def finish_eval path_eval)
  have pm: "jsonConfigPath env_files ''../mod'' = ''/mod/tsr.config.json''"
    "jsConfigPath env_files ''../mod'' = ''/mod/tsr.config.js''"
    by (simp_all add: jsonConfigPath_def jsConfigPath_def env_files_def path_eval)
  have rm: "resolveConfigPath env_files ''../mod'' = Some (jsConfigPath env_files ''../mod'')"
    by (simp add: resolveConfigPath_cases pm) (simp add: env_files_def)
  have im: "importDefault env_files (jsConfigPath env_files ''../mod'') = Inr mod_js"
    by (simp add: pm) (simp add: env_files_def)
  have pp: "configSchema_parse no_virtual (spread mod_js []) =
      Inr (default_config\<lparr>routesDirectory := ''./configured-routes-path'', disableLogging := True\<rparr>)"
    by (simp add: mod_js_def parse_eval default_config_def)
  have lm: "load_config no_virtual env_files [] (resolveConfigPath env_files ''../mod'') =
      Inr (default_config\<lparr>routesDirectory := ''./configured-routes-path'', disableLogging := True\<rparr>)"
    unfolding rm load_config_js by (simp add: im pp)
  have m: "getConfig no_virtual env_files [] (Some ''../mod'') = Inr ?M"
    by (simp add: getConfig_cases effective_directory_def lm)
       (simp add: env_files_def default_config_def finish_eval path_eval)
  have a: "isAbsolute (cwd env_no_files) \<or> isAbsolute ''/proj''"
    "isAbsolute (cwd env_files) \<or> isAbsolute ''../mod''"
    by (simp_all add: isAbsolute_def env_files_def)
  have ne: "''/proj'' \<noteq> []" "''../mod'' \<noteq> []" by simp_all
  from directory_paths_resolved [OF g ne(1) a(1)]
  have 1: "isAbsolute (routesDirectory ?R) \<and> isAbsolute (generatedRouteTree ?R)" by blast
  from directory_paths_resolved [OF m ne(2) a(2)]
  have 2: "isAbsolute (routesDirectory ?M) \<and> isAbsolute (generatedRouteTree ?M)" by blast
  from g m 1 2 show ?thesis by simp
qed

text \<open>
  Claim C4, as stated, fails: without a directory argument \<^verbatim>\<open>getConfig\<close> takes the working
  directory in its place, a non-empty string, and resolves both paths against it. In
  \<^verbatim>\<open>/work\<close> the declared defaults \<^verbatim>\<open>./src/routes\<close> and \<^verbatim>\<open>./src/routeTree.gen.ts\<close> come
  back as \<^verbatim>\<open>/work/src/routes\<close> and \<^verbatim>\<open>/work/src/routeTree.gen.ts\<close>.
\<close>

theorem default_directory_counterexample:
  "load_config no_virtual env_no_files []
      (resolveConfigPath env_no_files (effective_directory env_no_files None)) =
     Inr default_config
   \<and> getConfig no_virtual env_no_files [] None =
     Inr (default_config
           \<lparr>routesDirectory := ''/work/src/routes'',
            generatedRouteTree := ''/work/src/routeTree.gen.ts''\<rparr>)
   \<and> routesDirectory default_config = ''./src/routes''
   \<and> generatedRouteTree default_config = ''./src/routeTree.gen.ts''
   \<and> ''/work/src/routes'' \<noteq> routesDirectory default_config
   \<and> ''/work/src/routeTree.gen.ts'' \<noteq> generatedRouteTree default_config"
proof -
  have l: "load_config no_virtual env_no_files []
      (resolveConfigPath env_no_files (effective_directory env_no_files None)) =
     Inr default_config"
    by (simp add: no_files_resolve load_config_none parse_empty)
  have g: "getConfig no_virtual env_no_files [] None =
     Inr (default_config
           \<lparr>routesDirectory := ''/work/src/routes'',
            generatedRouteTree := ''/work/src/routeTree.gen.ts''\<rparr>)"
    by (simp add: getConfig_cases no_files_resolve load_config_none parse_empty)
       (simp add: effective_directory_def env_no_files_def default_config_def finish_eval path_eval)
  from l g show ?thesis by (simp add: default_config_def)
qed

text \<open>
  Claim C4, amended. A call of \<^verbatim>\<open>getConfig\<close> without a directory argument is the call
  with the working directory as the argument; when it returns a configuration, the
  working directory being absolute, \<^verbatim>\<open>routesDirectory\<close> and \<^verbatim>\<open>generatedRouteTree\<close> are the
  merged values resolved against the working directory, and both are absolute.
\<close>

theorem default_directory_is_cwd:
  "getConfig vs e inl None = getConfig vs e inl (Some (cwd e))
   \<and> (getConfig vs e inl None = Inr c \<and> isAbsolute (cwd e) \<longrightarrow>
        (\<exists>c0. load_config vs e inl (resolveConfigPath e (cwd e)) = Inr c0
           \<and> routesDirectory c = path_resolve (cwd e) [cwd e, routesDirectory c0]
           \<and> generatedRouteTree c =
               path_resolve (cwd e) [cwd e, generatedRouteTree (rewrite_extension c0)]
           \<and> isAbsolute (routesDirectory c)
           \<and> isAbsolute (generatedRouteTree c)))"
proof (intro conjI impI)
  show eq: "getConfig vs e inl None = getConfig vs e inl (Some (cwd e))"
    by (simp add: getConfig_def)
  assume h: "getConfig vs e inl None = Inr c \<and> isAbsolute (cwd e)"
  then obtain c0
    where l: "load_config vs e inl (resolveConfigPath e (cwd e)) = Inr c0"
      and c: "c = resolve_paths e (cwd e) (rewrite_extension c0)"
    by (auto simp: getConfig_Inr effective_directory_def)
  from h have ne: "cwd e \<noteq> []" and ab: "isAbsolute (cwd e)"
    by (auto dest: isAbsolute_nonempty)
  have rd: "routesDirectory c = path_resolve (cwd e) [cwd e, routesDirectory c0]"
    using ne ab by (simp add: c resolve_paths_fields rewrite_extension_fields)
  have gt: "generatedRouteTree c =
               path_resolve (cwd e) [cwd e, generatedRouteTree (rewrite_extension c0)]"
    using ne ab by (simp add: c resolve_paths_fields)
  have "isAbsolute (routesDirectory c)" "isAbsolute (generatedRouteTree c)"
    using ab by (simp_all add: rd gt path_resolve_absolute)
  with l rd gt
  show "\<exists>c0. load_config vs e inl (resolveConfigPath e (cwd e)) = Inr c0
           \<and> routesDirectory c = path_resolve (cwd e) [cwd e, routesDirectory c0]
           \<and> generatedRouteTree c =
               path_resolve (cwd e) [cwd e, generatedRouteTree (rewrite_extension c0)]
           \<and> isAbsolute (routesDirectory c)
           \<and> isAbsolute (generatedRouteTree c)"
    by blast
qed

theorem default_directory_is_cwd_witness:
  "isAbsolute (cwd env_files)
   \<and> getConfig no_virtual env_files [(''routesDirectory'', JStr ''routes'')] None =
     Inr (default_config
           \<lparr>routesDirectory := ''/work/routes'',
            generatedRouteTree := ''/work/src/routeTree.gen.ts''\<rparr>)
   \<and> getConfig no_virtual env_files [(''routesDirectory'', JStr ''routes'')] (Some ''/work'') =
     Inr (default_config
           \<lparr>routesDirectory := ''/work/routes'',
            generatedRouteTree := ''/work/src/routeTree.gen.ts''\<rparr>)
   \<and> isAbsolute ''/work/routes''"
proof -
  let ?inl = "[(''routesDirectory'', JStr ''routes'')]"
  let ?R = "default_config
           \<lparr>routesDirectory := ''/work/routes'',
            generatedRouteTree := ''/work/src/routeTree.gen.ts''\<rparr>"
  have w: "cwd env_files = ''/work''" by (simp add: env_files_def)
  have a: "isAbsolute (cwd env_files)" by (simp add: w isAbsolute_def)
  have pw: "jsonConfigPath env_files ''/work'' = ''/work/tsr.config.json''"
    "jsConfigPath env_files ''/work'' = ''/work/tsr.config.js''"
    by (simp_all add: jsonConfigPath_def jsConfigPath_def env_files_def path_eval)
  have r: "resolveConfigPath env_files ''/work'' = None"
    by (simp add: resolveConfigPath_cases pw) (simp add: env_files_def)
  have p: "configSchema_parse no_virtual ?inl = Inr (default_config\<lparr>routesDirectory := ''routes''\<rparr>)"
    by (simp add: parse_eval default_config_def)
  have g: "getConfig no_virtual env_files ?inl (Some ''/work'') = Inr ?R"
    by (simp add: getConfig_cases effective_directory_def r load_config_none p)
       (simp add: env_files_def default_config_def finish_eval path_eval)
  from default_directory_is_cwd [of no_virtual env_files ?inl ?R]
  have n: "getConfig no_virtual env_files ?inl None = Inr ?R"
    and "getConfig no_virtual env_files ?inl None = Inr ?R \<and> isAbsolute (cwd env_files) \<longrightarrow>
           isAbsolute (routesDirectory ?R)"
    using g by (auto simp: w)
  with a have "isAbsolute (routesDirectory ?R)" by blast
  with a n g show ?thesis by simp
qed


section \<open>Merging the file with the inline overrides\<close>

text \<open>
  Claim C1, as stated, fails. With \<^verbatim>\<open>apiBase: "/x"\<close> in the file and an inline
  \<^verbatim>\<open>apiBase\<close> that is \<^verbatim>\<open>undefined\<close>, the key is supplied inline, yet the resolved value is
  neither the inline value nor the value of the file: it is the default \<^verbatim>\<open>/api\<close>. And with
  \<^verbatim>\<open>routesDirectory: "a"\<close> in the file and \<^verbatim>\<open>"b"\<close> inline, \<^verbatim>\<open>getConfig\<close> on the directory
  \<^verbatim>\<open>/proj\<close> returns \<^verbatim>\<open>/proj/b\<close>, not \<^verbatim>\<open>b\<close>.
\<close>

theorem merge_precedence_counterexample:
  "resolveConfigPath env_files ''/proj'' = Some ''/proj/tsr.config.json''
   \<and> readJson env_files ''/proj/tsr.config.json'' = Inr proj_json
   \<and> obj_get (own_entries proj_json) ''apiBase'' = JStr ''/x''
   \<and> obj_get (own_entries proj_json) ''routesDirectory'' = JStr ''a''
   \<and> has_key [(''apiBase'', JUndefined), (''routesDirectory'', JStr ''b'')] ''apiBase''
   \<and> getConfig no_virtual env_files
        [(''apiBase'', JUndefined), (''routesDirectory'', JStr ''b'')] (Some ''/proj'') =
       Inr (default_config
             \<lparr>routesDirectory := ''/proj/b'',
              generatedRouteTree := ''/proj/src/routeTree.gen.ts''\<rparr>)
   \<and> apiBase default_config = ''/api''
   \<and> ''/proj/b'' \<noteq> ''b''"
proof -
  let ?inl = "[(''apiBase'', JUndefined), (''routesDirectory'', JStr ''b'')]"
  have p: "configSchema_parse no_virtual (spread proj_json ?inl) =
             Inr (default_config\<lparr>routesDirectory := ''b''\<rparr>)"
    by (simp add: proj_json_def parse_eval default_config_def)
  have l: "load_config no_virtual env_files ?inl
             (resolveConfigPath env_files (effective_directory env_files (Some ''/proj''))) =
           Inr (default_config\<lparr>routesDirectory := ''b''\<rparr>)"
    using load_config_loaded [OF proj_paths_files(2,3), of no_virtual ?inl]
    by (simp add: effective_directory_def proj_paths_files(1) p)
  have g: "getConfig no_virtual env_files ?inl (Some ''/proj'') =
       Inr (default_config
             \<lparr>routesDirectory := ''/proj/b'',
              generatedRouteTree := ''/proj/src/routeTree.gen.ts''\<rparr>)"
    by (simp add: getConfig_loaded [OF l])
       (simp add: effective_directory_def env_files_def default_config_def finish_eval path_eval)
  have o: "obj_get (own_entries proj_json) ''apiBase'' = JStr ''/x''"
    "obj_get (own_entries proj_json) ''routesDirectory'' = JStr ''a''"
    "has_key ?inl ''apiBase''"
    by (simp_all add: proj_json_def obj_get_def has_key_def)
  from g o proj_paths_files show ?thesis by (simp add: default_config_def)
qed

text \<open>
  Claim C1, amended. When a configuration file has been loaded, \<^verbatim>\<open>getConfig\<close> parses the
  shallow merge of the file's object and the inline overrides: under every key the inline
  entry when the inline object has that key, the entry of the file otherwise. For each
  field whose schema is a string, a boolean, an enumeration or an array of these, the
  parsed value is the inline value when the key is inline with a defined value, otherwise
  (the key not being inline) the value of the file when that is defined, otherwise the
  default of the schema, which is \<^verbatim>\<open>undefined\<close> for a field without one; an inline key that
  is \<^verbatim>\<open>undefined\<close> thus gives the default, not the value of the file. The three
  structured fields follow from the merged entry as \<open>structured_entries\<close> says: an inline
  \<^verbatim>\<open>customScaffolding\<close> or \<^verbatim>\<open>experimental\<close> replaces the one of the file as a whole. The
  configuration that \<^verbatim>\<open>getConfig\<close> returns has these values, except that
  \<^verbatim>\<open>routesDirectory\<close> and \<^verbatim>\<open>generatedRouteTree\<close> are normalised afterwards: a file with
  \<^verbatim>\<open>routesDirectory: "a"\<close> and inline overrides with \<^verbatim>\<open>routesDirectory: "b"\<close> parse to
  \<^verbatim>\<open>"b"\<close>, which \<^verbatim>\<open>getConfig\<close> then resolves against the directory.
\<close>

theorem merge_precedence:
  assumes "resolveConfigPath e (effective_directory e a) = Some p"
    and "readConfig (extname p) = Some configLoader"
    and "configLoader e p = Inr file"
  shows "load_config vs e inl (resolveConfigPath e (effective_directory e a)) =
           configSchema_parse vs (spread file inl)
         \<and> (\<forall>k. obj_get (spread file inl) k =
                 (if has_key inl k then obj_get inl k else obj_get (own_entries file) k))
         \<and> (\<forall>c0. configSchema_parse vs (spread file inl) = Inr c0 \<longrightarrow>
                 (\<forall>k \<in> set plain_keys.
                    obj_get (config_object c0) k =
                      (if has_key inl k \<and> obj_get inl k \<noteq> JUndefined then obj_get inl k
                       else if \<not> has_key inl k \<and> obj_get (own_entries file) k \<noteq> JUndefined
                       then obj_get (own_entries file) k
                       else obj_get (config_object default_config) k))
                 \<and> structured_entries vs (spread file inl) c0)
         \<and> (\<forall>c. getConfig vs e inl a = Inr c \<longrightarrow>
                 (\<forall>k \<in> set plain_keys.
                    k \<noteq> ''routesDirectory'' \<and> k \<noteq> ''generatedRouteTree'' \<longrightarrow>
                    obj_get (config_object c) k =
                      (if has_key inl k \<and> obj_get inl k \<noteq> JUndefined then obj_get inl k
                       else if \<not> has_key inl k \<and> obj_get (own_entries file) k \<noteq> JUndefined
                       then obj_get (own_entries file) k
                       else obj_get (config_object default_config) k))
                 \<and> structured_entries vs (spread file inl) c)
         \<and> configSchema_parse vs [] = Inr default_config
         \<and> (\<forall>c0. configSchema_parse vs (spread file inl) = Inr c0 \<and>
                 obj_get inl ''routesDirectory'' = JStr ''b'' \<longrightarrow>
                   routesDirectory c0 = ''b'')
         \<and> (\<forall>c. getConfig vs e inl a = Inr c \<and>
                 obj_get inl ''routesDirectory'' = JStr ''b'' \<longrightarrow>
                   routesDirectory c =
                     (if effective_directory e a = [] then ''b''
                      else if isAbsolute (effective_directory e a)
                      then path_resolve (cwd e) [effective_directory e a, ''b'']
                      else path_resolve (cwd e) [cwd e, effective_directory e a, ''b'']))"
proof -
  let ?ob = "spread file inl"
  let ?d = "effective_directory e a"
  let ?rule = "\<lambda>k. (if has_key inl k \<and> obj_get inl k \<noteq> JUndefined then obj_get inl k
                       else if \<not> has_key inl k \<and> obj_get (own_entries file) k \<noteq> JUndefined
                       then obj_get (own_entries file) k
                       else obj_get (config_object default_config) k)"
  have l: "load_config vs e inl (resolveConfigPath e ?d) = configSchema_parse vs ?ob"
    using load_config_loaded [OF assms(2,3)] by (simp add: assms(1))
  have m: "obj_get ?ob k = (if has_key inl k then obj_get inl k else obj_get (own_entries file) k)"
    for k
    by (simp add: spread_def obj_get_append)
  have pv: "obj_get (config_object c0) k = ?rule k"
    if "configSchema_parse vs ?ob = Inr c0" and "k \<in> set plain_keys" for c0 k
  proof -
    from parse_plain_value [OF that]
    have "obj_get (config_object c0) k =
            (if obj_get (own_entries file @ inl) k = JUndefined
             then obj_get (config_object default_config) k
             else obj_get (own_entries file @ inl) k)"
      by (simp only: spread_def)
    also have "\<dots> = ?rule k" by (rule three_way)
    finally show ?thesis .
  qed
  have st: "structured_entries vs ?ob c0" if "configSchema_parse vs ?ob = Inr c0" for c0
    using that by (rule parse_structured_entries)
  have gp: "obj_get (config_object c) k = ?rule k"
    if g: "getConfig vs e inl a = Inr c" and k: "k \<in> set plain_keys"
      and ne: "k \<noteq> ''routesDirectory'' \<and> k \<noteq> ''generatedRouteTree''" for c k
  proof -
    from g obtain c0 where c0: "configSchema_parse vs ?ob = Inr c0"
      and c: "c = resolve_paths e ?d (rewrite_extension c0)"
      by (auto simp: getConfig_Inr l)
    from ne have "obj_get (config_object c) k = obj_get (config_object c0) k"
      unfolding c by (intro normalized_object) simp_all
    with pv [OF c0 k] show ?thesis by simp
  qed
  have gs: "structured_entries vs ?ob c" if g: "getConfig vs e inl a = Inr c" for c
  proof -
    from g obtain c0 where c0: "configSchema_parse vs ?ob = Inr c0"
      and c: "c = resolve_paths e ?d (rewrite_extension c0)"
      by (auto simp: getConfig_Inr l)
    from st [OF c0] show ?thesis by (simp add: c normalized_structured)
  qed
  have b: "routesDirectory c0 = ''b''"
    if h: "configSchema_parse vs ?ob = Inr c0 \<and> obj_get inl ''routesDirectory'' = JStr ''b''" for c0
  proof -
    from h have hk: "has_key inl ''routesDirectory''"
      using obj_get_absent [of inl "''routesDirectory''"] by auto
    have "''routesDirectory'' \<in> set plain_keys" by (simp add: plain_keys_def)
    with h have "obj_get (config_object c0) ''routesDirectory'' = ?rule ''routesDirectory''"
      using pv by blast
    with h hk show ?thesis by (simp add: config_object_get)
  qed
  have g: "routesDirectory c =
                     (if ?d = [] then ''b''
                      else if isAbsolute ?d then path_resolve (cwd e) [?d, ''b'']
                      else path_resolve (cwd e) [cwd e, ?d, ''b''])"
    if h: "getConfig vs e inl a = Inr c \<and> obj_get inl ''routesDirectory'' = JStr ''b''" for c
  proof -
    from h obtain c0 where c0: "configSchema_parse vs ?ob = Inr c0"
      and c: "c = resolve_paths e ?d (rewrite_extension c0)"
      by (auto simp: getConfig_Inr l)
    from c0 h have "routesDirectory c0 = ''b''" using b by blast
    then show ?thesis
      by (simp add: c resolve_paths_fields rewrite_extension_fields)
  qed
  show ?thesis
    apply (intro conjI allI impI ballI)
            apply (rule l)
           apply (rule m)
          apply (erule (1) pv)
         apply (erule st)
        apply (rule gp; assumption)
       apply (erule gs)
      apply (rule parse_empty)
     apply (erule b)
    apply (erule g)
    done
qed

theorem merge_precedence_witness:
  "resolveConfigPath env_files (effective_directory env_files (Some ''/proj'')) =
     Some ''/proj/tsr.config.json''
   \<and> readJson env_files ''/proj/tsr.config.json'' = Inr proj_json
   \<and> obj_get (own_entries proj_json) ''routesDirectory'' = JStr ''a''
   \<and> load_config no_virtual env_files [(''routesDirectory'', JStr ''b'')]
        (resolveConfigPath env_files (effective_directory env_files (Some ''/proj''))) =
       Inr (default_config\<lparr>routesDirectory := ''b'', apiBase := ''/x''\<rparr>)
   \<and> getConfig no_virtual env_files [(''routesDirectory'', JStr ''b'')] (Some ''/proj'') =
       Inr (default_config
             \<lparr>routesDirectory := ''/proj/b'',
              generatedRouteTree := ''/proj/src/routeTree.gen.ts'',
              apiBase := ''/x''\<rparr>)"
proof -
  let ?inl = "[(''routesDirectory'', JStr ''b'')]"
  have r: "resolveConfigPath env_files (effective_directory env_files (Some ''/proj'')) =
             Some ''/proj/tsr.config.json''"
    by (simp add: effective_directory_def proj_paths_files)
  have p: "configSchema_parse no_virtual (spread proj_json ?inl) =
             Inr (default_config\<lparr>routesDirectory := ''b'', apiBase := ''/x''\<rparr>)"
    by (simp add: proj_json_def parse_eval default_config_def)
  from merge_precedence [OF r proj_paths_files(2,3), of no_virtual ?inl]
  have l: "load_config no_virtual env_files ?inl
             (resolveConfigPath env_files (effective_directory env_files (Some ''/proj''))) =
           Inr (default_config\<lparr>routesDirectory := ''b'', apiBase := ''/x''\<rparr>)"
    by (simp add: p)
  have g: "getConfig no_virtual env_files ?inl (Some ''/proj'') =
       Inr (default_config
             \<lparr>routesDirectory := ''/proj/b'',
              generatedRouteTree := ''/proj/src/routeTree.gen.ts'',
              apiBase := ''/x''\<rparr>)"
    by (simp add: getConfig_loaded [OF l])
       (simp add: effective_directory_def env_files_def default_config_def finish_eval path_eval)
  have o: "obj_get (own_entries proj_json) ''routesDirectory'' = JStr ''a''"
    by (simp add: proj_json_def obj_get_def)
  from r l g o proj_paths_files(3) show ?thesis by simp
qed

text \<open>
  Claim C10. When the inline overrides have a top-level key whose value is \<^verbatim>\<open>undefined\<close>,
  the key still overrides the loaded file: the merged object has \<^verbatim>\<open>undefined\<close> under it,
  the configuration parsed is the one parsed had the file no entry for that key, and the
  field that the key names has its default (it is \<^verbatim>\<open>undefined\<close> when the field has none).
\<close>

theorem inline_undefined_overrides_file:
  assumes "readConfig (extname p) = Some configLoader"
    and "configLoader e p = Inr file"
    and "has_key inl k"
    and "obj_get inl k = JUndefined"
  shows "obj_get (spread file inl) k = JUndefined
         \<and> load_config vs e inl (Some p) = configSchema_parse vs (spread file inl)
         \<and> configSchema_parse vs (spread file inl) =
             configSchema_parse vs (spread (without_key k file) inl)
         \<and> (\<forall>c. load_config vs e inl (Some p) = Inr c \<longrightarrow> field_equal k c default_config)"
proof -
  have u: "obj_get (spread file inl) k = JUndefined"
    using assms(3,4) by (simp add: spread_def obj_get_append)
  have l: "load_config vs e inl (Some p) = configSchema_parse vs (spread file inl)"
    using assms(1,2) by (rule load_config_loaded)
  have "obj_get (spread file inl) k' = obj_get (spread (without_key k file) inl) k'" for k'
    using assms(3,4) by (simp add: spread_def without_key_def obj_get_append obj_get_filter)
  then have w: "configSchema_parse vs (spread file inl) =
             configSchema_parse vs (spread (without_key k file) inl)"
    by (rule parse_cong)
  have d: "field_equal k c default_config" if "load_config vs e inl (Some p) = Inr c" for c
  proof -
    from that l have "configSchema_parse vs (spread file inl) = Inr c" by simp
    then have "reads_fields vs (spread file inl) c" by (rule parse_reads_fields)
    then show ?thesis using u by (rule field_equal_default)
  qed
  from u l w d show ?thesis by blast
qed

theorem inline_undefined_overrides_file_witness:
  "readJson env_files ''/proj/tsr.config.json'' = Inr proj_json
   \<and> obj_get (own_entries proj_json) ''apiBase'' = JStr ''/x''
   \<and> has_key [(''apiBase'', JUndefined)] ''apiBase''
   \<and> obj_get [(''apiBase'', JUndefined)] ''apiBase'' = JUndefined
   \<and> load_config no_virtual env_files [(''apiBase'', JUndefined)] (Some ''/proj/tsr.config.json'') =
       Inr (default_config\<lparr>routesDirectory := ''a''\<rparr>)
   \<and> field_equal ''apiBase'' (default_config\<lparr>routesDirectory := ''a''\<rparr>) default_config
   \<and> apiBase (default_config\<lparr>routesDirectory := ''a''\<rparr>) = ''/api''"
proof -
  let ?inl = "[(''apiBase'', JUndefined)]"
  have h: "has_key ?inl ''apiBase''" "obj_get ?inl ''apiBase'' = JUndefined"
    by (simp_all add: has_key_def obj_get_def)
  have o: "obj_get (own_entries proj_json) ''apiBase'' = JStr ''/x''"
    by (simp add: proj_json_def obj_get_def)
  have p: "configSchema_parse no_virtual (spread proj_json ?inl) =
             Inr (default_config\<lparr>routesDirectory := ''a''\<rparr>)"
    by (simp add: proj_json_def parse_eval default_config_def)
  note t = inline_undefined_overrides_file [OF proj_paths_files(2,3) h, of no_virtual]
  from t have l: "load_config no_virtual env_files ?inl (Some ''/proj/tsr.config.json'') =
       Inr (default_config\<lparr>routesDirectory := ''a''\<rparr>)"
    by (simp add: p)
  with t have f: "field_equal ''apiBase'' (default_config\<lparr>routesDirectory := ''a''\<rparr>) default_config"
    by blast
  from proj_paths_files(3) o h l f show ?thesis by (simp add: default_config_def)
qed


section \<open>Resolution without a configuration file\<close>

text \<open>
  Claim C7, as stated, fails in its second half: what \<^verbatim>\<open>getConfig\<close> returns for a directory
  without configuration file is not the schema defaults merged with the inline overrides
  as they stand. With empty overrides and the directory \<^verbatim>\<open>/proj\<close> the schema gives the
  defaults \<^verbatim>\<open>./src/routes\<close> and \<^verbatim>\<open>./src/routeTree.gen.ts\<close>, and \<^verbatim>\<open>getConfig\<close> returns
  \<^verbatim>\<open>/proj/src/routes\<close> and \<^verbatim>\<open>/proj/src/routeTree.gen.ts\<close>; with the inline override
  \<^verbatim>\<open>indexToken: "route"\<close> the merge with the defaults is a configuration, and \<^verbatim>\<open>getConfig\<close>
  returns none: it fails with the token-collision error.
\<close>

theorem without_file_counterexample:
  "\<not> existsSync env_no_files (jsonConfigPath env_no_files ''/proj'')
   \<and> \<not> existsSync env_no_files (jsConfigPath env_no_files ''/proj'')
   \<and> configSchema_parse no_virtual [] = Inr default_config
   \<and> getConfig no_virtual env_no_files [] (Some ''/proj'') =
       Inr (default_config
             \<lparr>routesDirectory := ''/proj/src/routes'',
              generatedRouteTree := ''/proj/src/routeTree.gen.ts''\<rparr>)
   \<and> getConfig no_virtual env_no_files [] (Some ''/proj'') \<noteq> configSchema_parse no_virtual []
   \<and> configSchema_parse no_virtual [(''indexToken'', JStr ''route'')] =
       Inr (default_config\<lparr>indexToken := ''route''\<rparr>)
   \<and> getConfig no_virtual env_no_files [(''indexToken'', JStr ''route'')] (Some ''/proj'') =
       Inl TokenCollision"
proof -
  have x: "\<not> existsSync env_no_files (jsonConfigPath env_no_files ''/proj'')"
    "\<not> existsSync env_no_files (jsConfigPath env_no_files ''/proj'')"
    by (simp_all add: env_no_files_def)
  have g: "getConfig no_virtual env_no_files [] (Some ''/proj'') =
       Inr (default_config
             \<lparr>routesDirectory := ''/proj/src/routes'',
              generatedRouteTree := ''/proj/src/routeTree.gen.ts''\<rparr>)"
    by (simp add: getConfig_cases no_files_resolve load_config_none parse_empty)
       (simp add: effective_directory_def env_no_files_def default_config_def finish_eval path_eval)
  have ne: "default_config
             \<lparr>routesDirectory := ''/proj/src/routes'',
              generatedRouteTree := ''/proj/src/routeTree.gen.ts''\<rparr> \<noteq> default_config"
  proof
    assume "default_config
             \<lparr>routesDirectory := ''/proj/src/routes'',
              generatedRouteTree := ''/proj/src/routeTree.gen.ts''\<rparr> = default_config"
    then have "routesDirectory (default_config
             \<lparr>routesDirectory := ''/proj/src/routes'',
              generatedRouteTree := ''/proj/src/routeTree.gen.ts''\<rparr>) =
             routesDirectory default_config"
      by simp
    then show False by (simp add: default_config_def)
  qed
  have p: "configSchema_parse no_virtual [(''indexToken'', JStr ''route'')] =
       Inr (default_config\<lparr>indexToken := ''route''\<rparr>)"
    by (simp add: parse_eval default_config_def)
  have t: "getConfig no_virtual env_no_files [(''indexToken'', JStr ''route'')] (Some ''/proj'') =
       Inl TokenCollision"
    by (simp add: getConfig_cases no_files_resolve load_config_none p)
       (simp add: validate_normalized, simp add: validateConfig_def default_config_def)
  from x g ne p t show ?thesis by (simp add: parse_empty)
qed

text \<open>
  Claim C7, amended. For a directory in which neither \<^verbatim>\<open>tsr.config.json\<close> nor
  \<^verbatim>\<open>tsr.config.js\<close> exists, \<^verbatim>\<open>resolveConfigPath\<close> returns nothing, and \<^verbatim>\<open>getConfig\<close> on that
  directory skips the loading of a file: replacing both loaders leaves its result as it
  is. It parses the inline overrides alone, so that every field whose schema is a string,
  a boolean, an enumeration or an array of these is the inline value where that is
  defined and the default of the schema otherwise (the three structured fields as
  \<open>structured_entries\<close> says, \<open>default_config\<close> for an empty object). A schema error or
  an error of the validator ends the call; otherwise the configuration returned has these
  values, with \<^verbatim>\<open>routesDirectory\<close> and \<^verbatim>\<open>generatedRouteTree\<close> resolved against the
  directory, the latter after the rewriting of its extension.
\<close>

theorem getConfig_without_file:
  assumes "\<not> existsSync e (jsonConfigPath e d)" and "\<not> existsSync e (jsConfigPath e d)"
  shows "resolveConfigPath e d = None
         \<and> getConfig vs e inl (Some d) =
             (case configSchema_parse vs inl of
                Inl err \<Rightarrow> Inl err
              | Inr c0 \<Rightarrow>
                  (case validateConfig c0 of
                     Inl err \<Rightarrow> Inl err
                   | Inr _ \<Rightarrow> Inr (resolve_paths e d (rewrite_extension c0))))
         \<and> getConfig vs (e\<lparr>readJson := r, importDefault := i\<rparr>) inl (Some d) =
             getConfig vs e inl (Some d)
         \<and> (\<forall>c0. configSchema_parse vs inl = Inr c0 \<longrightarrow>
                 (\<forall>k \<in> set plain_keys.
                    obj_get (config_object c0) k =
                      (if obj_get inl k = JUndefined
                       then obj_get (config_object default_config) k
                       else obj_get inl k))
                 \<and> structured_entries vs inl c0)
         \<and> (\<forall>c. getConfig vs e inl (Some d) = Inr c \<longrightarrow>
                 (\<forall>k \<in> set plain_keys.
                    k \<noteq> ''routesDirectory'' \<and> k \<noteq> ''generatedRouteTree'' \<longrightarrow>
                    obj_get (config_object c) k =
                      (if obj_get inl k = JUndefined
                       then obj_get (config_object default_config) k
                       else obj_get inl k))
                 \<and> structured_entries vs inl c
                 \<and> (\<exists>c0. configSchema_parse vs inl = Inr c0 \<and>
                       routesDirectory c = routesDirectory (resolve_paths e d c0) \<and>
                       generatedRouteTree c =
                         generatedRouteTree (resolve_paths e d (rewrite_extension c0))))
         \<and> configSchema_parse vs [] = Inr default_config"
proof -
  let ?e' = "e\<lparr>readJson := r, importDefault := i\<rparr>"
  let ?rule = "\<lambda>k. (if obj_get inl k = JUndefined
                       then obj_get (config_object default_config) k
                       else obj_get inl k)"
  have n: "resolveConfigPath e d = None"
    using assms by (simp add: resolveConfigPath_cases)
  have n': "resolveConfigPath ?e' d = None"
    using assms by (simp add: resolveConfigPath_cases jsonConfigPath_def jsConfigPath_def)
  have rp: "resolve_paths ?e' = resolve_paths e"
    by (intro ext) (simp add: resolve_paths_def)
  have l: "load_config vs e inl (resolveConfigPath e (effective_directory e (Some d))) =
             configSchema_parse vs inl"
    by (simp add: effective_directory_def n load_config_none)
  have g: "getConfig vs e inl (Some d) =
             (case configSchema_parse vs inl of
                Inl err \<Rightarrow> Inl err
              | Inr c0 \<Rightarrow>
                  (case validateConfig c0 of
                     Inl err \<Rightarrow> Inl err
                   | Inr _ \<Rightarrow> Inr (resolve_paths e d (rewrite_extension c0))))"
    by (simp add: getConfig_cases effective_directory_def n load_config_none validate_normalized
        cong: sum.case_cong)
  have g': "getConfig vs ?e' inl (Some d) =
             (case configSchema_parse vs inl of
                Inl err \<Rightarrow> Inl err
              | Inr c0 \<Rightarrow>
                  (case validateConfig c0 of
                     Inl err \<Rightarrow> Inl err
                   | Inr _ \<Rightarrow> Inr (resolve_paths e d (rewrite_extension c0))))"
    by (simp add: getConfig_cases rp effective_directory_def n' load_config_none
        validate_normalized cong: sum.case_cong)
  have pv: "obj_get (config_object c0) k = ?rule k"
    if "configSchema_parse vs inl = Inr c0" and "k \<in> set plain_keys" for c0 k
    using that by (rule parse_plain_value)
  have st: "structured_entries vs inl c0" if "configSchema_parse vs inl = Inr c0" for c0
    using that by (rule parse_structured_entries)
  have res: "\<exists>c0. configSchema_parse vs inl = Inr c0 \<and>
                 c = resolve_paths e d (rewrite_extension c0)"
    if "getConfig vs e inl (Some d) = Inr c" for c
    using that l by (auto simp: getConfig_Inr effective_directory_def)
  have gp: "obj_get (config_object c) k = ?rule k"
    if gc: "getConfig vs e inl (Some d) = Inr c" and k: "k \<in> set plain_keys"
      and ne: "k \<noteq> ''routesDirectory'' \<and> k \<noteq> ''generatedRouteTree''" for c k
  proof -
    from res [OF gc] obtain c0 where c0: "configSchema_parse vs inl = Inr c0"
      and c: "c = resolve_paths e d (rewrite_extension c0)"
      by blast
    from ne have "obj_get (config_object c) k = obj_get (config_object c0) k"
      unfolding c by (intro normalized_object) simp_all
    with pv [OF c0 k] show ?thesis by simp
  qed
  have gs: "structured_entries vs inl c" if gc: "getConfig vs e inl (Some d) = Inr c" for c
  proof -
    from res [OF gc] obtain c0 where c0: "configSchema_parse vs inl = Inr c0"
      and c: "c = resolve_paths e d (rewrite_extension c0)"
      by blast
    from st [OF c0] show ?thesis by (simp add: c normalized_structured)
  qed
  have gr: "\<exists>c0. configSchema_parse vs inl = Inr c0 \<and>
                       routesDirectory c = routesDirectory (resolve_paths e d c0) \<and>
                       generatedRouteTree c =
                         generatedRouteTree (resolve_paths e d (rewrite_extension c0))"
    if gc: "getConfig vs e inl (Some d) = Inr c" for c
  proof -
    from res [OF gc] obtain c0 where c0: "configSchema_parse vs inl = Inr c0"
      and c: "c = resolve_paths e d (rewrite_extension c0)"
      by blast
    have "routesDirectory c = routesDirectory (resolve_paths e d c0)"
      by (simp add: c resolve_paths_fields rewrite_extension_fields)
    with c0 c show ?thesis by blast
  qed
  show ?thesis
    apply (intro conjI allI impI ballI)
            apply (rule n)
           apply (rule g)
          apply (simp only: g g')
         apply (erule (1) pv)
        apply (erule st)
       apply (rule gp; assumption)
      apply (erule gs)
     apply (erule gr)
    apply (rule parse_empty)
    done
qed

theorem getConfig_without_file_witness:
  "\<not> existsSync env_no_files (jsonConfigPath env_no_files ''/proj'')
   \<and> \<not> existsSync env_no_files (jsConfigPath env_no_files ''/proj'')
   \<and> resolveConfigPath env_no_files ''/proj'' = None
   \<and> getConfig no_virtual env_no_files
        [(''disableLogging'', JBool True), (''quoteStyle'', JStr ''double'')] (Some ''/proj'') =
       Inr (default_config
             \<lparr>routesDirectory := ''/proj/src/routes'',
              generatedRouteTree := ''/proj/src/routeTree.gen.ts'',
              quoteStyle := ''double'',
              disableLogging := True\<rparr>)"
proof -
  let ?inl = "[(''disableLogging'', JBool True), (''quoteStyle'', JStr ''double'')]"
  have x: "\<not> existsSync env_no_files (jsonConfigPath env_no_files ''/proj'')"
    "\<not> existsSync env_no_files (jsConfigPath env_no_files ''/proj'')"
    by (simp_all add: env_no_files_def)
  have p: "configSchema_parse no_virtual ?inl =
             Inr (default_config\<lparr>quoteStyle := ''double'', disableLogging := True\<rparr>)"
    by (simp add: parse_eval default_config_def)
  have v: "validateConfig (default_config\<lparr>quoteStyle := ''double'', disableLogging := True\<rparr>) =
             Inr (default_config\<lparr>quoteStyle := ''double'', disableLogging := True\<rparr>)"
    by (simp add: validateConfig_def default_config_def trim_def is_js_space_def)
  have c: "cwd env_no_files = ''/work''" by (simp add: env_no_files_def)
  show ?thesis
    using getConfig_without_file [OF x, of no_virtual ?inl] x
    by (simp add: p v) (simp add: default_config_def finish_eval path_eval c)
qed


section \<open>Determinism\<close>

text \<open>
  Claim C9, as stated, fails. Where the configuration file is a script module,
  \<^verbatim>\<open>getConfig\<close> runs the code of the module, and that code need not evaluate to the same
  default export in two calls. The two environments below have the same working
  directory, the same existing paths and the same contents of every JSON file; the
  module \<^verbatim>\<open>/mod/tsr.config.js\<close> exports another object in the second. With the same
  (empty) overrides and the same directory the two calls return different configurations.
\<close>

theorem determinism_counterexample:
  "cwd env_files_reloaded = cwd env_files
   \<and> existsSync env_files_reloaded = existsSync env_files
   \<and> readJson env_files_reloaded = readJson env_files
   \<and> getConfig no_virtual env_files [] (Some ''/mod'') =
       Inr (default_config
             \<lparr>routesDirectory := ''/mod/configured-routes-path'',
              generatedRouteTree := ''/mod/src/routeTree.gen.ts'',
              disableLogging := True\<rparr>)
   \<and> getConfig no_virtual env_files_reloaded [] (Some ''/mod'') =
       Inr (default_config
             \<lparr>routesDirectory := ''/mod/other-routes'',
              generatedRouteTree := ''/mod/src/routeTree.gen.ts''\<rparr>)
   \<and> getConfig no_virtual env_files [] (Some ''/mod'') \<noteq>
       getConfig no_virtual env_files_reloaded [] (Some ''/mod'')"
proof -
  have same: "cwd env_files_reloaded = cwd env_files"
    "existsSync env_files_reloaded = existsSync env_files"
    "readJson env_files_reloaded = readJson env_files"
    by (simp_all add: env_files_reloaded_def)
  have pm: "jsonConfigPath env_files ''/mod'' = ''/mod/tsr.config.json''"
    "jsConfigPath env_files ''/mod'' = ''/mod/tsr.config.js''"
    "jsonConfigPath env_files_reloaded ''/mod'' = ''/mod/tsr.config.json''"
    "jsConfigPath env_files_reloaded ''/mod'' = ''/mod/tsr.config.js''"
    by (simp_all add: jsonConfigPath_def jsConfigPath_def env_files_reloaded_def env_files_def
        path_eval)
  have rm: "resolveConfigPath env_files ''/mod'' = Some (jsConfigPath env_files ''/mod'')"
    "resolveConfigPath env_files_reloaded ''/mod'' = Some (jsConfigPath env_files_reloaded ''/mod'')"
    by (simp_all add: resolveConfigPath_cases pm)
       (simp_all add: env_files_reloaded_def env_files_def)
  have im: "importDefault env_files (jsConfigPath env_files ''/mod'') = Inr mod_js"
    "importDefault env_files_reloaded (jsConfigPath env_files_reloaded ''/mod'') =
       Inr (JObj [(''routesDirectory'', JStr ''./other-routes'')])"
    by (simp_all add: pm) (simp_all add: env_files_reloaded_def env_files_def)
  have pp: "configSchema_parse no_virtual (spread mod_js []) =
      Inr (default_config\<lparr>routesDirectory := ''./configured-routes-path'', disableLogging := True\<rparr>)"
    "configSchema_parse no_virtual (spread (JObj [(''routesDirectory'', JStr ''./other-routes'')]) []) =
      Inr (default_config\<lparr>routesDirectory := ''./other-routes''\<rparr>)"
    by (simp_all add: mod_js_def parse_eval default_config_def)
  have l1: "load_config no_virtual env_files [] (resolveConfigPath env_files ''/mod'') =
      Inr (default_config\<lparr>routesDirectory := ''./configured-routes-path'', disableLogging := True\<rparr>)"
    unfolding rm load_config_js by (simp add: im pp)
  have l2: "load_config no_virtual env_files_reloaded [] (resolveConfigPath env_files_reloaded ''/mod'') =
      Inr (default_config\<lparr>routesDirectory := ''./other-routes''\<rparr>)"
    unfolding rm load_config_js by (simp add: im pp)
  have g1: "getConfig no_virtual env_files [] (Some ''/mod'') =
       Inr (default_config
             \<lparr>routesDirectory := ''/mod/configured-routes-path'',
              generatedRouteTree := ''/mod/src/routeTree.gen.ts'',
              disableLogging := True\<rparr>)"
    by (simp add: getConfig_cases effective_directory_def l1)
       (simp add: env_files_def default_config_def finish_eval path_eval)
  have g2: "getConfig no_virtual env_files_reloaded [] (Some ''/mod'') =
       Inr (default_config
             \<lparr>routesDirectory := ''/mod/other-routes'',
              generatedRouteTree := ''/mod/src/routeTree.gen.ts''\<rparr>)"
    by (simp add: getConfig_cases effective_directory_def l2)
       (simp add: env_files_reloaded_def env_files_def default_config_def finish_eval path_eval)
  have ne: "getConfig no_virtual env_files [] (Some ''/mod'') \<noteq>
       getConfig no_virtual env_files_reloaded [] (Some ''/mod'')"
  proof
    assume "getConfig no_virtual env_files [] (Some ''/mod'') =
       getConfig no_virtual env_files_reloaded [] (Some ''/mod'')"
    then have "disableLogging (default_config
             \<lparr>routesDirectory := ''/mod/configured-routes-path'',
              generatedRouteTree := ''/mod/src/routeTree.gen.ts'',
              disableLogging := True\<rparr>) =
          disableLogging (default_config
             \<lparr>routesDirectory := ''/mod/other-routes'',
              generatedRouteTree := ''/mod/src/routeTree.gen.ts''\<rparr>)"
      unfolding g1 g2 by simp
    then show False by (simp add: default_config_def)
  qed
  from same g1 g2 ne show ?thesis by blast
qed

text \<open>
  Claim C9, amended. Two calls of \<^verbatim>\<open>getConfig\<close> with the same inline overrides and the same
  directory argument give equal results, the same configuration or the same error,
  whenever the working directory is the same, each of the two candidate files exists in
  both or in neither, the JSON file yields the same in both and, in case the script
  module is the file chosen (there is no \<^verbatim>\<open>tsr.config.json\<close> and there is a
  \<^verbatim>\<open>tsr.config.js\<close>), loading it yields the same default export in both. Nothing else of
  the environment is read: where the JSON file is chosen, or no file, what the script
  module would export does not matter.
\<close>

theorem getConfig_reads_only_its_inputs:
  assumes "cwd e1 = cwd e2"
    and "existsSync e1 (jsonConfigPath e1 (effective_directory e1 a)) =
         existsSync e2 (jsonConfigPath e1 (effective_directory e1 a))"
    and "existsSync e1 (jsConfigPath e1 (effective_directory e1 a)) =
         existsSync e2 (jsConfigPath e1 (effective_directory e1 a))"
    and "readJson e1 (jsonConfigPath e1 (effective_directory e1 a)) =
         readJson e2 (jsonConfigPath e1 (effective_directory e1 a))"
    and "\<not> existsSync e1 (jsonConfigPath e1 (effective_directory e1 a)) \<and>
         existsSync e1 (jsConfigPath e1 (effective_directory e1 a)) \<longrightarrow>
           importDefault e1 (jsConfigPath e1 (effective_directory e1 a)) =
           importDefault e2 (jsConfigPath e1 (effective_directory e1 a))"
  shows "getConfig vs e1 inl a = getConfig vs e2 inl a"
proof -
  let ?d = "effective_directory e1 a"
  have d: "effective_directory e2 a = ?d"
    using assms(1) by (simp add: effective_directory_def split: option.split)
  have pj: "jsonConfigPath e2 ?d = jsonConfigPath e1 ?d" "jsConfigPath e2 ?d = jsConfigPath e1 ?d"
    using assms(1) by (simp_all add: jsonConfigPath_def jsConfigPath_def)
  have r: "resolveConfigPath e2 ?d = resolveConfigPath e1 ?d"
    using assms(2,3) by (simp add: resolveConfigPath_cases pj)
  have l: "load_config vs e2 inl (resolveConfigPath e1 ?d) =
           load_config vs e1 inl (resolveConfigPath e1 ?d)"
  proof (cases "existsSync e1 (jsonConfigPath e1 ?d)")
    case True
    then have "resolveConfigPath e1 ?d = Some (jsonConfigPath e1 ?d)"
      by (simp add: resolveConfigPath_cases)
    then show ?thesis
      using load_config_json [of vs e1 inl ?d] load_config_json [of vs e2 inl ?d] assms(4)
      by (simp add: pj)
  next
    case no_json: False
    show ?thesis
    proof (cases "existsSync e1 (jsConfigPath e1 ?d)")
      case True
      with no_json have "resolveConfigPath e1 ?d = Some (jsConfigPath e1 ?d)"
        by (simp add: resolveConfigPath_cases)
      moreover from True no_json assms(5)
      have "importDefault e1 (jsConfigPath e1 ?d) = importDefault e2 (jsConfigPath e1 ?d)"
        by simp
      ultimately show ?thesis
        using load_config_js [of vs e1 inl ?d] load_config_js [of vs e2 inl ?d]
        by (simp add: pj)
    next
      case False
      with no_json have "resolveConfigPath e1 ?d = None"
        by (simp add: resolveConfigPath_cases)
      then show ?thesis by (simp add: load_config_none)
    qed
  qed
  have rp: "resolve_paths e2 ?d = resolve_paths e1 ?d"
    using assms(1) by (intro ext) (simp add: resolve_paths_def)
  show ?thesis
    unfolding getConfig_cases d r l rp ..
qed

theorem getConfig_reads_only_its_inputs_witness:
  "importDefault env_files ''/proj/tsr.config.js'' \<noteq>
     importDefault env_files_reloaded ''/proj/tsr.config.js''
   \<and> getConfig no_virtual env_files [] (Some ''/proj'') =
       getConfig no_virtual env_files_reloaded [] (Some ''/proj'')
   \<and> existsSync env_files_touched ''/elsewhere/tsr.config.json''
   \<and> \<not> existsSync env_files ''/elsewhere/tsr.config.json''
   \<and> getConfig no_virtual env_files [] (Some ''/mod'') =
       getConfig no_virtual env_files_touched [] (Some ''/mod'')"
proof -
  have d: "effective_directory env_files (Some ''/proj'') = ''/proj''"
    "effective_directory env_files (Some ''/mod'') = ''/mod''"
    by (simp_all add: effective_directory_def)
  have pm: "jsonConfigPath env_files ''/mod'' = ''/mod/tsr.config.json''"
    "jsConfigPath env_files ''/mod'' = ''/mod/tsr.config.js''"
    by (simp_all add: jsonConfigPath_def jsConfigPath_def env_files_def path_eval)
  have 1: "getConfig no_virtual env_files [] (Some ''/proj'') =
        getConfig no_virtual env_files_reloaded [] (Some ''/proj'')"
    by (rule getConfig_reads_only_its_inputs)
       (simp_all add: d concrete_paths, simp_all add: env_files_reloaded_def env_files_def)
  have 2: "getConfig no_virtual env_files [] (Some ''/mod'') =
        getConfig no_virtual env_files_touched [] (Some ''/mod'')"
    by (rule getConfig_reads_only_its_inputs)
       (simp_all add: d pm, simp_all add: env_files_touched_def env_files_def)
  have 3: "importDefault env_files ''/proj/tsr.config.js'' \<noteq>
     importDefault env_files_reloaded ''/proj/tsr.config.js''"
    by (simp add: env_files_reloaded_def env_files_def mod_js_def)
  from 1 2 3 show ?thesis by (simp add: env_files_touched_def env_files_def)
qed

end
